theory Spec2Isabelle
  imports Main "HOL-Library.Sublist" "HOL-Library.AList"
begin

section \<open>bwctl: object states, statuses and kinds (utils/states.py)\<close>

datatype ObjectKind = BATCH | FABRIC | NODEBATCH | ORCHESTRATOR | PROCESSOR | WORKLOAD | VPC

datatype ObjectState = DELETING | CONFIGURED | STARTED | STOPPED | CREATED | UPDATED

datatype ObjectStatus = FAILED | SUCCESS

section \<open>The action matrix of create batch (commands/create.py, set_action_list)\<close>

text \<open>
  The three action lists that \<open>set_action_list\<close> appends to. The dictionary that the
  source passes for orchestrators only has the \<open>config\<close> key: an append to one of the
  other two lists raises \<open>KeyError\<close> there (see \<open>plan_orchestrators\<close>).
\<close>

record 'e actions =
  config :: "'e list"
  start :: "'e list"
  stop :: "'e list"

definition no_actions :: "'e actions" where
  "no_actions = \<lparr>config = [], start = [], stop = []\<rparr>"

definition role_bearing :: "ObjectKind \<Rightarrow> bool" where
  "role_bearing entity_role = (entity_role = WORKLOAD \<or> entity_role = PROCESSOR)"

definition add_config :: "'e \<Rightarrow> 'e actions \<Rightarrow> 'e actions" where
  "add_config entity a = a\<lparr>config := config a @ [entity]\<rparr>"

definition add_start :: "'e \<Rightarrow> 'e actions \<Rightarrow> 'e actions" where
  "add_start entity a = a\<lparr>start := start a @ [entity]\<rparr>"

definition add_stop :: "'e \<Rightarrow> 'e actions \<Rightarrow> 'e actions" where
  "add_stop entity a = a\<lparr>stop := stop a @ [entity]\<rparr>"

text \<open>
  \<open>current_state\<close> and \<open>current_status\<close> come from \<open>get_object_state\<close> and
  \<open>get_object_status\<close>, which give \<open>None\<close> for a value outside the enumeration.
  The two configurations are only compared for inequality.
\<close>

definition set_action_list ::
  "ObjectState option \<Rightarrow> ObjectStatus option \<Rightarrow> ObjectState \<Rightarrow> 'e actions \<Rightarrow> 'e \<Rightarrow> ObjectKind
     \<Rightarrow> 'c \<Rightarrow> 'c \<Rightarrow> 'e actions" where
  "set_action_list current_state current_status target_state actions entity entity_role
       batch_entity_conf state_entity_conf =
    (if current_state = Some CREATED then
       (if target_state = CONFIGURED then add_config entity actions
        else if target_state = STARTED \<and> role_bearing entity_role
          then add_start entity (add_config entity actions)
        else if target_state = STOPPED \<and> role_bearing entity_role
          then add_stop entity (add_config entity actions)
        else actions)
     else if current_state = Some CONFIGURED then
       (if target_state = CONFIGURED \<and> current_status = Some FAILED then add_config entity actions
        else if target_state = CONFIGURED
                \<and> (role_bearing entity_role \<and> batch_entity_conf \<noteq> state_entity_conf)
          then add_config entity actions
        else if target_state = STARTED
                \<and> (role_bearing entity_role \<and> batch_entity_conf \<noteq> state_entity_conf)
          then add_start entity (add_config entity actions)
        else if target_state = STARTED
                \<and> (role_bearing entity_role \<and> current_status = Some FAILED)
          then add_start entity (add_config entity actions)
        else if target_state = STARTED \<and> role_bearing entity_role
          then add_start entity actions
        else if target_state = STOPPED
                \<and> (role_bearing entity_role \<and> batch_entity_conf \<noteq> state_entity_conf)
          then add_stop entity (add_config entity actions)
        else if target_state = STOPPED
                \<and> (role_bearing entity_role \<and> current_status = Some FAILED)
          then add_stop entity (add_config entity actions)
        else if target_state = STOPPED \<and> role_bearing entity_role
          then add_stop entity actions
        else actions)
     else if current_state = Some STARTED then
       (if target_state = STARTED \<and> current_status = Some FAILED then add_start entity actions
        else if target_state = STARTED
                \<and> (role_bearing entity_role \<and> batch_entity_conf \<noteq> state_entity_conf)
          then add_start entity (add_config entity actions)
        else if target_state = STOPPED
                \<and> (role_bearing entity_role \<and> batch_entity_conf \<noteq> state_entity_conf)
          then add_stop entity (add_config entity actions)
        else if target_state = STOPPED then add_stop entity actions
        else actions)
     else if current_state = Some STOPPED then
       (if target_state = STOPPED \<and> current_status = Some FAILED then add_stop entity actions
        else if target_state = STOPPED
                \<and> (role_bearing entity_role \<and> batch_entity_conf \<noteq> state_entity_conf)
          then add_stop entity (add_config entity actions)
        else if target_state = STARTED
                \<and> (role_bearing entity_role \<and> batch_entity_conf \<noteq> state_entity_conf)
          then add_start entity (add_config entity actions)
        else if target_state = STARTED then add_start entity actions
        else actions)
     else actions)"

text \<open>The plan of one entity: the actions whose list received the entity.\<close>

datatype action = Config | Start | Stop

definition planned :: "'e actions \<Rightarrow> 'e \<Rightarrow> action list" where
  "planned a entity =
     (if entity \<in> set (config a) then [Config] else [])
     @ (if entity \<in> set (start a) then [Start] else [])
     @ (if entity \<in> set (stop a) then [Stop] else [])"

definition plan ::
  "ObjectState \<Rightarrow> ObjectStatus \<Rightarrow> ObjectState \<Rightarrow> ObjectKind \<Rightarrow> 'c \<Rightarrow> 'c \<Rightarrow> action list" where
  "plan current_state current_status target_state entity_role batch_entity_conf state_entity_conf =
     planned (set_action_list (Some current_state) (Some current_status) target_state no_actions
                () entity_role batch_entity_conf state_entity_conf) ()"

subsection \<open>The decision table of the specification, section 4.2\<close>

datatype status_pattern = Any_status | Only ObjectStatus

datatype drift_pattern = Any_drift | Drift bool | Drift_or_failed

type_synonym table_row = "ObjectState \<times> status_pattern \<times> ObjectState \<times> drift_pattern \<times> action list"

text \<open>The eighteen rows of the table, in the order of the specification.\<close>

definition decision_table :: "table_row list" where
  "decision_table =
    [(CREATED, Any_status, CONFIGURED, Any_drift, [Config]),
     (CREATED, Any_status, STARTED, Any_drift, [Config, Start]),
     (CREATED, Any_status, STOPPED, Any_drift, [Config, Stop]),
     (CONFIGURED, Only FAILED, CONFIGURED, Any_drift, [Config]),
     (CONFIGURED, Only SUCCESS, CONFIGURED, Drift True, [Config]),
     (CONFIGURED, Only SUCCESS, CONFIGURED, Drift False, []),
     (CONFIGURED, Any_status, STARTED, Drift_or_failed, [Config, Start]),
     (CONFIGURED, Only SUCCESS, STARTED, Drift False, [Start]),
     (CONFIGURED, Any_status, STOPPED, Drift_or_failed, [Config, Stop]),
     (CONFIGURED, Only SUCCESS, STOPPED, Drift False, [Stop]),
     (STARTED, Only FAILED, STARTED, Any_drift, [Start]),
     (STARTED, Any_status, STARTED, Drift True, [Config, Start]),
     (STARTED, Any_status, STOPPED, Drift True, [Config, Stop]),
     (STARTED, Only SUCCESS, STOPPED, Drift False, [Stop]),
     (STOPPED, Only FAILED, STOPPED, Any_drift, [Stop]),
     (STOPPED, Any_status, STOPPED, Drift True, [Config, Stop]),
     (STOPPED, Any_status, STARTED, Drift True, [Config, Start]),
     (STOPPED, Only SUCCESS, STARTED, Drift False, [Start])]"

fun status_matches :: "status_pattern \<Rightarrow> ObjectStatus \<Rightarrow> bool" where
  "status_matches Any_status s = True"
| "status_matches (Only p) s = (p = s)"

fun drift_matches :: "drift_pattern \<Rightarrow> ObjectStatus \<Rightarrow> bool \<Rightarrow> bool" where
  "drift_matches Any_drift s changed = True"
| "drift_matches (Drift b) s changed = (b = changed)"
| "drift_matches Drift_or_failed s changed = (changed \<or> s = FAILED)"

definition row_matches :: "table_row \<Rightarrow> ObjectState \<Rightarrow> ObjectStatus \<Rightarrow> ObjectState \<Rightarrow> bool \<Rightarrow> bool" where
  "row_matches r cs st tgt changed =
     (case r of (rcs, rst, rtgt, rdrift, acts) \<Rightarrow>
        rcs = cs \<and> status_matches rst st \<and> rtgt = tgt \<and> drift_matches rdrift st changed)"

definition row_actions :: "table_row \<Rightarrow> action list" where
  "row_actions r = (case r of (rcs, rst, rtgt, rdrift, acts) \<Rightarrow> acts)"

text \<open>
  Reading a table top down: the first row that matches gives the result, and a combination
  that no row matches is a no-op.
\<close>

fun table_lookup :: "table_row list \<Rightarrow> ObjectState \<Rightarrow> ObjectStatus \<Rightarrow> ObjectState \<Rightarrow> bool \<Rightarrow> action list" where
  "table_lookup [] cs st tgt changed = []"
| "table_lookup (r # rs) cs st tgt changed =
     (if row_matches r cs st tgt changed then row_actions r else table_lookup rs cs st tgt changed)"

text \<open>
  The table as the code implements it: rows 14 and 18 (a state change between started and
  stopped with an unchanged configuration) apply whatever the status of the last attempt.
\<close>

definition relax_status :: "table_row \<Rightarrow> table_row" where
  "relax_status r = (case r of (rcs, rst, rtgt, rdrift, acts) \<Rightarrow> (rcs, Any_status, rtgt, rdrift, acts))"

definition decision_table_any_status :: "table_row list" where
  "decision_table_any_status =
     (decision_table[13 := relax_status (decision_table ! 13)])
       [17 := relax_status (decision_table ! 17)]"


section \<open>The persisted state tree (session/state.py)\<close>

text \<open>
  The state is a nested dictionary. A dictionary keeps its keys in insertion order, and the
  code reads that order (\<open>obj_list[-1]\<close>, \<open>manager[0]\<close>), so every keyed map is an
  association list: \<open>AList.update\<close> overwrites a key in place or appends a new one, as
  an assignment \<open>d[k] = v\<close> does, and \<open>AList.delete\<close> is \<open>del d[k]\<close>. The fields
  \<open>state\<close> and \<open>status\<close> hold \<open>None\<close> when the stored value is not a member of
  the enumeration (a clean object holds \<open>{}\<close> there).
\<close>

record vpc_obj =
  v_cloud :: string
  v_region :: string
  v_index :: int
  v_state :: "ObjectState option"
  v_status :: "ObjectStatus option"

record node_obj =
  n_index :: int
  n_vpc :: string
  n_state :: "ObjectState option"
  n_status :: "ObjectStatus option"
  n_role :: "string option"
  n_type :: "string option"
  n_dns_enabled :: string

record fabric_obj =
  f_state :: "ObjectState option"
  f_status :: "ObjectStatus option"
  f_vpc :: "(string \<times> vpc_obj) list"
  f_orchestrator :: "(string \<times> node_obj) list"
  f_processor :: "(string \<times> node_obj) list"
  f_workload :: "(string \<times> node_obj) list"

text \<open>A member of a node batch, as \<open>create_batch\<close> records it (\<open>nb_node\<close>).\<close>

record nb_node =
  nb_kind :: ObjectKind
  nb_fabric :: string
  nb_name :: string
  nb_vpc :: string
  nb_config :: "(string \<times> string) list"
  nb_state :: ObjectState

text \<open>
  A node batch of the state: its own state and one node map per kind, where a kind's key
  may be absent.
\<close>

record batch_obj =
  b_state :: "ObjectState option"
  b_workload :: "(string \<times> nb_node) list option"
  b_processor :: "(string \<times> nb_node) list option"

text \<open>
  The \<open>State\<close> object: the two top-level maps of the tree and, from the configuration,
  the current fabric.
\<close>

record state =
  st_batch :: "(string \<times> batch_obj) list"
  st_fabric :: "(string \<times> fabric_obj) list"
  cfg_current_fabric :: "string option"

definition check_fabric :: "state \<Rightarrow> string \<Rightarrow> bool" where
  "check_fabric st name = (map_of (st_fabric st) name \<noteq> None)"

definition get_fabric :: "state \<Rightarrow> string \<Rightarrow> fabric_obj option" where
  "get_fabric st name = map_of (st_fabric st) name"

definition check_object_state_status :: "node_obj \<Rightarrow> ObjectState \<Rightarrow> ObjectStatus \<Rightarrow> bool" where
  "check_object_state_status obj s t = (n_state obj = Some s \<and> n_status obj = Some t)"

text \<open>
  \<open>get_current_fabric\<close>: the inner \<open>if\<close> has no \<open>else\<close>, so a fabric that exists but
  is not eligible falls off the end of the function, which returns \<open>None\<close>.
\<close>

definition get_current_fabric :: "state \<Rightarrow> string option" where
  "get_current_fabric st =
     (case cfg_current_fabric st of
        None \<Rightarrow> None
      | Some current_fabric \<Rightarrow>
          (case map_of (st_fabric st) current_fabric of
             Some f \<Rightarrow>
               (if (f_state f = Some CONFIGURED \<and> f_status f = Some SUCCESS)
                    \<or> f_state f = Some DELETING
                then Some current_fabric
                else None)
           | None \<Rightarrow> None))"

text \<open>The commands test the accessor's result for truth: \<open>None\<close> and the empty name fail.\<close>

definition falsy :: "string option \<Rightarrow> bool" where
  "falsy r = (r = None \<or> r = Some [])"

text \<open>
  \<open>str.lower\<close>. A character of the model is a code point below 256; on these,
  \<open>str.lower\<close> maps the capital letters A to Z and the capital letters of Latin-1
  (from 0xC0 to 0xDE, without the multiplication sign 0xD7) to the small letters, 32 code
  points further on, and leaves every other character as it is.
\<close>

definition normalise_char :: "char \<Rightarrow> char" where
  "normalise_char c =
     (case map_of
             (zip (''ABCDEFGHIJKLMNOPQRSTUVWXYZ'' @
                   [CHR 0xC0, CHR 0xC1, CHR 0xC2, CHR 0xC3, CHR 0xC4, CHR 0xC5, CHR 0xC6, CHR 0xC7,
                    CHR 0xC8, CHR 0xC9, CHR 0xCA, CHR 0xCB, CHR 0xCC, CHR 0xCD, CHR 0xCE, CHR 0xCF,
                    CHR 0xD0, CHR 0xD1, CHR 0xD2, CHR 0xD3, CHR 0xD4, CHR 0xD5, CHR 0xD6, CHR 0xD8,
                    CHR 0xD9, CHR 0xDA, CHR 0xDB, CHR 0xDC, CHR 0xDD, CHR 0xDE])
                  (''abcdefghijklmnopqrstuvwxyz'' @
                   [CHR 0xE0, CHR 0xE1, CHR 0xE2, CHR 0xE3, CHR 0xE4, CHR 0xE5, CHR 0xE6, CHR 0xE7,
                    CHR 0xE8, CHR 0xE9, CHR 0xEA, CHR 0xEB, CHR 0xEC, CHR 0xED, CHR 0xEE, CHR 0xEF,
                    CHR 0xF0, CHR 0xF1, CHR 0xF2, CHR 0xF3, CHR 0xF4, CHR 0xF5, CHR 0xF6, CHR 0xF8,
                    CHR 0xF9, CHR 0xFA, CHR 0xFB, CHR 0xFC, CHR 0xFD, CHR 0xFE])) c of
        Some l \<Rightarrow> l
      | None \<Rightarrow> c)"

definition normalise_string :: "string \<Rightarrow> string" where
  "normalise_string input_string = map normalise_char input_string"

section \<open>Deleting a processor (commands/delete.py, delete_processor)\<close>

text \<open>
  How a command ends (\<open>sys.exit(code)\<close>, \<open>return True\<close> or an exception that
  nothing catches), the calls it makes to its collaborators, in order, and what the
  collaborators answer.
\<close>

datatype py_error = KeyError | TypeError | IndexError | AttributeError | UnboundLocalError

datatype ending = Exit int | Return_True | Raised py_error

datatype call =
    Credentials_get
  | Terraform_plan_generate
  | Terraform_plan_execute
  | State_dump
  | Ssh_config_generate

record externals =
  credentials_ok :: bool
  plan_generate_ok :: bool
  plan_execute_res :: "bool \<times> int"

record outcome =
  ending :: ending
  new_state :: state
  calls :: "call list"

definition delete_fabric_object_processor :: "state \<Rightarrow> string \<Rightarrow> string \<Rightarrow> state" where
  "delete_fabric_object_processor st fabric_name obj_name =
     (case map_of (st_fabric st) fabric_name of
        None \<Rightarrow> st
      | Some f \<Rightarrow>
          st\<lparr>st_fabric := AList.update fabric_name
                (f\<lparr>f_processor := AList.delete obj_name (f_processor f)\<rparr>) (st_fabric st)\<rparr>)"

definition delete_processor :: "state \<Rightarrow> string \<Rightarrow> bool \<Rightarrow> externals \<Rightarrow> outcome" where
  "delete_processor st processor_name dry_run ext =
     (if falsy (get_current_fabric st) then \<lparr>ending = Exit 1, new_state = st, calls = []\<rparr>
      else
        let fabric_name = the (get_current_fabric st);
            fab = the (get_fabric st fabric_name);
            obj_name = normalise_string processor_name
        in (case map_of (f_processor fab) obj_name of
              None \<Rightarrow> \<lparr>ending = Exit 1, new_state = st, calls = []\<rparr>
            | Some obj \<Rightarrow>
                let obj_vpc = n_vpc obj;
                    processors = map fst (filter (\<lambda>x. obj_vpc = n_vpc (snd x)) (f_processor fab));
                    workloads = map fst (filter (\<lambda>x. obj_vpc = n_vpc (snd x)) (f_workload fab))
                in if length processors < 2 \<and> workloads \<noteq> [] then
                     \<lparr>ending = Exit 1, new_state = st, calls = []\<rparr>
                   else if dry_run then \<lparr>ending = Return_True, new_state = st, calls = []\<rparr>
                   else if \<not> credentials_ok ext then
                     \<lparr>ending = Exit 1, new_state = st, calls = [Credentials_get]\<rparr>
                   else if \<not> plan_generate_ok ext then
                     \<lparr>ending = Exit 1, new_state = st,
                      calls = [Credentials_get, Terraform_plan_generate]\<rparr>
                   else if \<not> fst (plan_execute_res ext) then
                     \<lparr>ending = Exit (snd (plan_execute_res ext)), new_state = st,
                      calls = [Credentials_get, Terraform_plan_generate, Terraform_plan_execute]\<rparr>
                   else
                     \<lparr>ending = Return_True,
                      new_state = delete_fabric_object_processor st fabric_name obj_name,
                      calls = [Credentials_get, Terraform_plan_generate, Terraform_plan_execute,
                               State_dump, Ssh_config_generate]\<rparr>))"

section \<open>Names and indices (commands/create.py)\<close>

text \<open>\<open>str\<close> of an integer, and the format \<open>{:02d}\<close>: zeros on the left up to width 2.\<close>

definition digit_char :: "nat \<Rightarrow> char" where
  "digit_char d = ''0123456789'' ! d"

fun str_nat :: "nat \<Rightarrow> string" where
  "str_nat n = (if n < 10 then [digit_char n] else str_nat (n div 10) @ [digit_char (n mod 10)])"

declare str_nat.simps [simp del]

definition str :: "int \<Rightarrow> string" where
  "str i = (if i < 0 then CHR ''-'' # str_nat (nat (- i)) else str_nat (nat i))"

definition format_02d :: "int \<Rightarrow> string" where
  "format_02d i = (let s = str i in replicate (2 - length s) (CHR ''0'') @ s)"

text \<open>\<open>vpc.split("-")[0]\<close>: the text before the first dash.\<close>

definition vpc_short :: "string \<Rightarrow> string" where
  "vpc_short vpc = takeWhile (\<lambda>c. c \<noteq> CHR ''-'') vpc"

text \<open>
  The name of \<open>create_orchestrator\<close>, \<open>create_processor\<close> and \<open>create_workload\<close>:
  \<open>'{0!s}-{1!s}{2:02d}-{3!s}'.format(vpc.split("-")[0], obj_char, obj_index, fabric)\<close>.
\<close>

definition node_name :: "string \<Rightarrow> string \<Rightarrow> int \<Rightarrow> string \<Rightarrow> string" where
  "node_name vpc obj_char obj_index fabric_name =
     vpc_short vpc @ ''-'' @ obj_char @ format_02d obj_index @ ''-'' @ fabric_name"

text \<open>
  The name that the node-batch expansion of \<open>create_batch\<close> builds:
  \<open>nodebatch_vpc.split("-")[0] + '-' + char_type + '0' + str(nodebatch_node_index + i) + '-' + fabric\<close>.
\<close>

definition nodebatch_node_name :: "string \<Rightarrow> string \<Rightarrow> int \<Rightarrow> string \<Rightarrow> string" where
  "nodebatch_node_name nodebatch_vpc char_type node_index fabric_name =
     vpc_short nodebatch_vpc @ ''-'' @ char_type @ ''0'' @ str node_index @ ''-'' @ fabric_name"

text \<open>
  The scope of an allocation. The source filters with \<open>vpc in x[1]['vpc']\<close>, which on two
  strings is containment of a substring, not equality.
\<close>

definition in_vpc :: "string \<Rightarrow> string \<times> node_obj \<Rightarrow> bool" where
  "in_vpc vpc x = sublist vpc (n_vpc (snd x))"

definition in_cloud :: "string \<Rightarrow> string \<times> vpc_obj \<Rightarrow> bool" where
  "in_cloud vpc_cloud x = sublist vpc_cloud (v_cloud (snd x))"

definition max_index :: "(string \<times> node_obj) list \<Rightarrow> int" where
  "max_index obj_list = Max (set (map (\<lambda>item. n_index (snd item)) obj_list))"

record allocation =
  a_index :: int
  a_name :: string
  a_dns_enabled :: string

text \<open>
  Lines 897 to 918 of \<open>create_processor\<close> (the same lines stand in \<open>create_orchestrator\<close>
  and \<open>create_workload\<close>). \<open>objs\<close> is \<open>get_fabric_objects(obj_kind)\<close> of the current
  fabric. On a retry the DNS flag is read from the object that carries the derived name;
  \<open>get_fabric_object\<close> gives \<open>{}\<close> for a name that is not there, and the subscript
  then raises \<open>KeyError\<close>.
\<close>

definition allocate_node ::
  "(string \<times> node_obj) list \<Rightarrow> string \<Rightarrow> string \<Rightarrow> string \<Rightarrow> py_error + allocation" where
  "allocate_node objs vpc obj_char fabric_name =
     (let obj_list = filter (in_vpc vpc) objs in
      if obj_list = [] then
        Inr \<lparr>a_index = 1, a_name = node_name vpc obj_char 1 fabric_name, a_dns_enabled = ''false''\<rparr>
      else
        let obj_index = max_index obj_list in
        if \<not> check_object_state_status (snd (last obj_list)) CREATED FAILED then
          Inr \<lparr>a_index = obj_index + 1,
               a_name = node_name vpc obj_char (obj_index + 1) fabric_name,
               a_dns_enabled = ''false''\<rparr>
        else
          (case map_of objs (node_name vpc obj_char obj_index fabric_name) of
             None \<Rightarrow> Inl KeyError
           | Some obj \<Rightarrow>
               Inr \<lparr>a_index = obj_index,
                    a_name = node_name vpc obj_char obj_index fabric_name,
                    a_dns_enabled = n_dns_enabled obj\<rparr>))"

text \<open>Lines 1040 to 1045 of \<open>create_vpc\<close>: the index and the name of a new VPC.\<close>

definition allocate_vpc_index :: "(string \<times> vpc_obj) list \<Rightarrow> string \<Rightarrow> int" where
  "allocate_vpc_index vpcs vpc_cloud =
     (let vpc_list = filter (in_cloud vpc_cloud) vpcs in
      if vpc_list = [] then 1
      else Max (set (map (\<lambda>item. v_index (snd item)) vpc_list)) + 1)"

definition vpc_name :: "string \<Rightarrow> int \<Rightarrow> string \<Rightarrow> string" where
  "vpc_name vpc_cloud vpc_index fabric_name = vpc_cloud @ str vpc_index @ ''-vpc-'' @ fabric_name"

text \<open>\<open>add_fabric_obj\<close> on one map of a fabric: an assignment to a key.\<close>

definition add_fabric_obj :: "(string \<times> 'v) list \<Rightarrow> string \<Rightarrow> 'v \<Rightarrow> (string \<times> 'v) list" where
  "add_fabric_obj objs obj_name obj = AList.update obj_name obj objs"

text \<open>\<open>get_clean_processor\<close> and \<open>get_clean_orchestrator\<close>: every field still unset.\<close>

definition get_clean_node :: node_obj where
  "get_clean_node = \<lparr>n_index = 0, n_vpc = [], n_state = None, n_status = None,
                     n_role = None, n_type = None, n_dns_enabled = []\<rparr>"

text \<open>
  What \<open>obj_create\<close> leaves on an object it was asked to create: created with success;
  created and failed, before or after the DNS flag was switched on; or, when only the
  inventory could not be generated, no state written at all.
\<close>

datatype obj_create_result =
    Create_ok
  | Create_failed_early int
  | Create_failed_late int
  | Create_unmarked

definition dns_on :: "node_obj \<Rightarrow> node_obj" where
  "dns_on obj = (if n_dns_enabled obj = ''false'' then obj\<lparr>n_dns_enabled := ''true''\<rparr> else obj)"

fun obj_create_effect :: "obj_create_result \<Rightarrow> node_obj \<Rightarrow> node_obj" where
  "obj_create_effect Create_ok obj = (dns_on obj)\<lparr>n_state := Some CREATED, n_status := Some SUCCESS\<rparr>"
| "obj_create_effect (Create_failed_early code) obj = obj\<lparr>n_state := Some CREATED, n_status := Some FAILED\<rparr>"
| "obj_create_effect (Create_failed_late code) obj = (dns_on obj)\<lparr>n_state := Some CREATED, n_status := Some FAILED\<rparr>"
| "obj_create_effect Create_unmarked obj = dns_on obj"

fun obj_create_code :: "obj_create_result \<Rightarrow> int option" where
  "obj_create_code Create_ok = None"
| "obj_create_code (Create_failed_early code) = Some code"
| "obj_create_code (Create_failed_late code) = Some code"
| "obj_create_code Create_unmarked = Some 1"

section \<open>Creating a processor, a workload, an orchestrator and a VPC (commands/create.py)\<close>

text \<open>
  \<open>check_vpc\<close> subscripts the fabric, so it is only defined for a fabric of the state;
  the commands call it with the current fabric, which \<open>get_current_fabric\<close> found there.
\<close>

definition check_vpc :: "fabric_obj \<Rightarrow> string \<Rightarrow> bool" where
  "check_vpc fab name = (map_of (f_vpc fab) name \<noteq> None)"

record create_externals =
  cx_credentials_ok :: bool
  cx_obj_create :: obj_create_result

datatype create_call =
    Get_credentials
  | Obj_create "string list"
  | Vpc_create_call "string list"
  | Dump_state
  | Generate_ssh_config

record create_outcome =
  c_ending :: ending
  c_state :: state
  c_calls :: "create_call list"

definition put_fabric :: "state \<Rightarrow> string \<Rightarrow> fabric_obj \<Rightarrow> state" where
  "put_fabric st fabric_name fab = st\<lparr>st_fabric := AList.update fabric_name fab (st_fabric st)\<rparr>"

definition create_processor :: "state \<Rightarrow> string \<Rightarrow> create_externals \<Rightarrow> create_outcome" where
  "create_processor st vpc ext =
     (if falsy (get_current_fabric st) then \<lparr>c_ending = Exit 1, c_state = st, c_calls = []\<rparr>
      else
        let fabric_name = the (get_current_fabric st);
            fab = the (get_fabric st fabric_name)
        in if \<not> check_vpc fab vpc then \<lparr>c_ending = Exit 1, c_state = st, c_calls = []\<rparr>
           else
             (case allocate_node (f_processor fab) vpc ''p'' fabric_name of
                Inl e \<Rightarrow> \<lparr>c_ending = Raised e, c_state = st, c_calls = []\<rparr>
              | Inr a \<Rightarrow>
                  let new_obj = get_clean_node\<lparr>n_vpc := vpc, n_index := a_index a,
                                               n_dns_enabled := a_dns_enabled a\<rparr>
                  in if \<not> cx_credentials_ok ext then
                       \<lparr>c_ending = Exit 1, c_state = st, c_calls = [Get_credentials]\<rparr>
                     else
                       let created = obj_create_effect (cx_obj_create ext) new_obj;
                           temp_state = put_fabric st fabric_name
                             (fab\<lparr>f_processor := add_fabric_obj (f_processor fab) (a_name a) created\<rparr>)
                       in (case obj_create_code (cx_obj_create ext) of
                             Some code \<Rightarrow>
                               \<lparr>c_ending = Exit code, c_state = temp_state,
                                c_calls = [Get_credentials, Obj_create [a_name a], Dump_state]\<rparr>
                           | None \<Rightarrow>
                               \<lparr>c_ending = Return_True, c_state = temp_state,
                                c_calls = [Get_credentials, Obj_create [a_name a], Dump_state,
                                           Generate_ssh_config]\<rparr>)))"

text \<open>
  \<open>create_workload\<close>: the lines of \<open>create_processor\<close> on the workloads, with the
  character \<open>w\<close>. Here \<open>obj_create_check\<close> can fail (a workload needs a processor in
  its VPC); the command then exits before anything is committed. The image type that the
  command writes to the properties of the new object is not part of the state model.
\<close>

definition obj_create_check :: "fabric_obj \<Rightarrow> ObjectKind \<Rightarrow> string list \<Rightarrow> bool" where
  "obj_create_check fab kind names =
     (kind \<noteq> WORKLOAD \<or>
      list_all (\<lambda>obj_name.
                  case map_of (f_workload fab) obj_name of
                    None \<Rightarrow> True
                  | Some obj \<Rightarrow> filter (\<lambda>x. n_vpc (snd x) = n_vpc obj) (f_processor fab) \<noteq> [])
               names)"

definition create_workload :: "state \<Rightarrow> string \<Rightarrow> create_externals \<Rightarrow> create_outcome" where
  "create_workload st vpc ext =
     (if falsy (get_current_fabric st) then \<lparr>c_ending = Exit 1, c_state = st, c_calls = []\<rparr>
      else
        let fabric_name = the (get_current_fabric st);
            fab = the (get_fabric st fabric_name)
        in if \<not> check_vpc fab vpc then \<lparr>c_ending = Exit 1, c_state = st, c_calls = []\<rparr>
           else
             (case allocate_node (f_workload fab) vpc ''w'' fabric_name of
                Inl e \<Rightarrow> \<lparr>c_ending = Raised e, c_state = st, c_calls = []\<rparr>
              | Inr a \<Rightarrow>
                  let new_obj = get_clean_node\<lparr>n_vpc := vpc, n_index := a_index a,
                                               n_dns_enabled := a_dns_enabled a\<rparr>;
                      placed = fab\<lparr>f_workload := add_fabric_obj (f_workload fab) (a_name a) new_obj\<rparr>
                  in if \<not> cx_credentials_ok ext then
                       \<lparr>c_ending = Exit 1, c_state = st, c_calls = [Get_credentials]\<rparr>
                     else if \<not> obj_create_check placed WORKLOAD [a_name a] then
                       \<lparr>c_ending = Exit 1, c_state = st, c_calls = [Get_credentials]\<rparr>
                     else
                       let created = obj_create_effect (cx_obj_create ext) new_obj;
                           temp_state = put_fabric st fabric_name
                             (fab\<lparr>f_workload := add_fabric_obj (f_workload fab) (a_name a) created\<rparr>)
                       in (case obj_create_code (cx_obj_create ext) of
                             Some code \<Rightarrow>
                               \<lparr>c_ending = Exit code, c_state = temp_state,
                                c_calls = [Get_credentials, Obj_create [a_name a], Dump_state]\<rparr>
                           | None \<Rightarrow>
                               \<lparr>c_ending = Return_True, c_state = temp_state,
                                c_calls = [Get_credentials, Obj_create [a_name a], Dump_state,
                                           Generate_ssh_config]\<rparr>)))"

text \<open>
  \<open>create_orchestrator\<close> first refuses a type that an orchestrator of the fabric already
  has with status success (\<open>orchestrator_type in x[1]['type']\<close>: a substring test, false
  on the \<open>{}\<close> of an unset type). The new object gets its type, but no role.
\<close>

definition has_type_success :: "string \<Rightarrow> string \<times> node_obj \<Rightarrow> bool" where
  "has_type_success orchestrator_type x =
     ((case n_type (snd x) of None \<Rightarrow> False | Some t \<Rightarrow> sublist orchestrator_type t)
      \<and> n_status (snd x) = Some SUCCESS)"

definition create_orchestrator :: "state \<Rightarrow> string \<Rightarrow> string \<Rightarrow> create_externals \<Rightarrow> create_outcome" where
  "create_orchestrator st vpc orchestrator_type ext =
     (if falsy (get_current_fabric st) then \<lparr>c_ending = Exit 1, c_state = st, c_calls = []\<rparr>
      else
        let fabric_name = the (get_current_fabric st);
            fab = the (get_fabric st fabric_name)
        in if \<not> check_vpc fab vpc then \<lparr>c_ending = Exit 1, c_state = st, c_calls = []\<rparr>
           else if filter (has_type_success orchestrator_type) (f_orchestrator fab) \<noteq> [] then
             \<lparr>c_ending = Exit 1, c_state = st, c_calls = []\<rparr>
           else
             (case allocate_node (f_orchestrator fab) vpc ''c'' fabric_name of
                Inl e \<Rightarrow> \<lparr>c_ending = Raised e, c_state = st, c_calls = []\<rparr>
              | Inr a \<Rightarrow>
                  let new_obj = get_clean_node\<lparr>n_vpc := vpc, n_index := a_index a,
                                               n_type := Some orchestrator_type,
                                               n_dns_enabled := a_dns_enabled a\<rparr>
                  in if \<not> cx_credentials_ok ext then
                       \<lparr>c_ending = Exit 1, c_state = st, c_calls = [Get_credentials]\<rparr>
                     else
                       let created = obj_create_effect (cx_obj_create ext) new_obj;
                           temp_state = put_fabric st fabric_name
                             (fab\<lparr>f_orchestrator :=
                                    add_fabric_obj (f_orchestrator fab) (a_name a) created\<rparr>)
                       in (case obj_create_code (cx_obj_create ext) of
                             Some code \<Rightarrow>
                               \<lparr>c_ending = Exit code, c_state = temp_state,
                                c_calls = [Get_credentials, Obj_create [a_name a], Dump_state]\<rparr>
                           | None \<Rightarrow>
                               \<lparr>c_ending = Return_True, c_state = temp_state,
                                c_calls = [Get_credentials, Obj_create [a_name a], Dump_state,
                                           Generate_ssh_config]\<rparr>)))"

text \<open>
  \<open>create_vpc\<close> (lines 1023 to 1072). \<open>vpc_create\<close> fails without the credentials, when
  the Terraform plan cannot be generated, or when its execution fails with a code; the
  command then exits before the state is committed. No branch looks at the state or the
  status of the VPCs that are there.
\<close>

datatype vpc_create_result = Vpc_created | Vpc_no_credentials | Vpc_plan_failed | Vpc_execute_failed int

record vpc_externals =
  vx_region_supported :: bool
  vx_vpc_create :: vpc_create_result

definition create_vpc :: "state \<Rightarrow> string \<Rightarrow> string \<Rightarrow> bool \<Rightarrow> vpc_externals \<Rightarrow> create_outcome" where
  "create_vpc st vpc_cloud vpc_region dry_run ext =
     (if falsy (get_current_fabric st) then \<lparr>c_ending = Exit 1, c_state = st, c_calls = []\<rparr>
      else if \<not> vx_region_supported ext then \<lparr>c_ending = Exit 1, c_state = st, c_calls = []\<rparr>
      else
        let fabric_name = the (get_current_fabric st);
            fab = the (get_fabric st fabric_name);
            vpc_index = allocate_vpc_index (f_vpc fab) vpc_cloud;
            obj_name = vpc_name vpc_cloud vpc_index fabric_name
        in if check_vpc fab obj_name then \<lparr>c_ending = Exit 1, c_state = st, c_calls = []\<rparr>
           else if dry_run then \<lparr>c_ending = Return_True, c_state = st, c_calls = []\<rparr>
           else
             (case vx_vpc_create ext of
                Vpc_created \<Rightarrow>
                  \<lparr>c_ending = Return_True,
                   c_state = put_fabric st fabric_name
                     (fab\<lparr>f_vpc := add_fabric_obj (f_vpc fab) obj_name
                            \<lparr>v_cloud = vpc_cloud, v_region = vpc_region, v_index = vpc_index,
                             v_state = Some CREATED, v_status = Some SUCCESS\<rparr>\<rparr>),
                   c_calls = [Vpc_create_call [obj_name], Dump_state]\<rparr>
              | Vpc_no_credentials \<Rightarrow>
                  \<lparr>c_ending = Exit 1, c_state = st, c_calls = [Vpc_create_call [obj_name]]\<rparr>
              | Vpc_plan_failed \<Rightarrow>
                  \<lparr>c_ending = Exit 1, c_state = st, c_calls = [Vpc_create_call [obj_name]]\<rparr>
              | Vpc_execute_failed code \<Rightarrow>
                  \<lparr>c_ending = Exit code, c_state = st, c_calls = [Vpc_create_call [obj_name]]\<rparr>))"

section \<open>Node batches (session/state.py and the node-batch part of create_batch)\<close>

definition check_nodebatch :: "state \<Rightarrow> string \<Rightarrow> bool" where
  "check_nodebatch st name = (name \<in> fst ` set (st_batch st))"

definition get_nodebatch :: "state \<Rightarrow> string \<Rightarrow> batch_obj option" where
  "get_nodebatch st name = map_of (st_batch st) name"

definition add_batch :: "state \<Rightarrow> string \<Rightarrow> batch_obj \<Rightarrow> state" where
  "add_batch st batch_name b = st\<lparr>st_batch := AList.update batch_name b (st_batch st)\<rparr>"

definition delete_nodebatch :: "state \<Rightarrow> string \<Rightarrow> state" where
  "delete_nodebatch st name = st\<lparr>st_batch := AList.delete name (st_batch st)\<rparr>"

text \<open>
  The members of one kind that a batch of the state holds, none for a kind that the batch
  has no map of. (\<open>add_batch_obj\<close> writes into the map that the expansion has just
  created; the specification speaks of the members of a batch.)
\<close>

definition batch_nodes :: "batch_obj \<Rightarrow> ObjectKind \<Rightarrow> (string \<times> nb_node) list" where
  "batch_nodes b kind =
     (if kind = PROCESSOR then (case b_processor b of None \<Rightarrow> [] | Some m \<Rightarrow> m)
      else if kind = WORKLOAD then (case b_workload b of None \<Rightarrow> [] | Some m \<Rightarrow> m)
      else [])"

definition set_batch_nodes :: "batch_obj \<Rightarrow> ObjectKind \<Rightarrow> (string \<times> nb_node) list \<Rightarrow> batch_obj" where
  "set_batch_nodes b kind m =
     (if kind = PROCESSOR then b\<lparr>b_processor := Some m\<rparr>
      else if kind = WORKLOAD then b\<lparr>b_workload := Some m\<rparr>
      else b)"

text \<open>
  \<open>add_batch_obj\<close>; the batch is the one \<open>add_batch\<close> has just stored (the subscript of
  the source would raise on a batch that is not there, here the state stays as it is).
\<close>

definition add_batch_obj :: "state \<Rightarrow> string \<Rightarrow> ObjectKind \<Rightarrow> string \<Rightarrow> nb_node \<Rightarrow> state" where
  "add_batch_obj st batch_name obj_type obj_name obj =
     (case map_of (st_batch st) batch_name of
        None \<Rightarrow> st
      | Some b \<Rightarrow>
          add_batch st batch_name
            (set_batch_nodes b obj_type (AList.update obj_name obj (batch_nodes b obj_type))))"

subsection \<open>nodebatch_check_success\<close>

definition nodebatch_curr_type :: "batch_obj \<Rightarrow> ObjectKind" where
  "nodebatch_curr_type nodebatch_obj =
     (if b_processor nodebatch_obj \<noteq> None then PROCESSOR else WORKLOAD)"

text \<open>
  The loop runs over a copy of the target list and removes from the list itself. A name
  with no batch in the state makes \<open>get_nodebatch\<close> return \<open>None\<close>, and the membership
  test on \<open>None\<close> raises \<open>TypeError\<close>.
\<close>

fun nodebatch_check_loop ::
  "string list \<Rightarrow> state \<Rightarrow> string list \<Rightarrow> ObjectState \<Rightarrow> ObjectKind
     \<Rightarrow> py_error + (state \<times> string list)" where
  "nodebatch_check_loop [] st nodebatch_targets target_obj_state nodebatch_type =
     Inr (st, nodebatch_targets)"
| "nodebatch_check_loop (nodebatch # rest) st nodebatch_targets target_obj_state nodebatch_type =
     (case get_nodebatch st nodebatch of
        None \<Rightarrow> Inl TypeError
      | Some nodebatch_obj \<Rightarrow>
          if b_state nodebatch_obj = Some target_obj_state
             \<and> nodebatch_curr_type nodebatch_obj = nodebatch_type
          then nodebatch_check_loop rest (delete_nodebatch st nodebatch)
                 (remove1 nodebatch nodebatch_targets) target_obj_state nodebatch_type
          else nodebatch_check_loop rest st nodebatch_targets target_obj_state nodebatch_type)"

definition nodebatch_check_success ::
  "state \<Rightarrow> string list \<Rightarrow> ObjectState \<Rightarrow> ObjectKind \<Rightarrow> py_error + (state \<times> string list)" where
  "nodebatch_check_success st nodebatch_targets target_obj_state nodebatch_type =
     nodebatch_check_loop nodebatch_targets st nodebatch_targets target_obj_state nodebatch_type"

text \<open>
  The property the specification asks for, in its words: every member node generated by
  the batch has reached the target state declared for it, with status success.
\<close>

definition get_fabric_objects :: "fabric_obj \<Rightarrow> ObjectKind \<Rightarrow> (string \<times> node_obj) list" where
  "get_fabric_objects fab kind =
     (if kind = PROCESSOR then f_processor fab
      else if kind = WORKLOAD then f_workload fab
      else if kind = ORCHESTRATOR then f_orchestrator fab
      else [])"

definition member_reached_target :: "state \<Rightarrow> nb_node \<Rightarrow> bool" where
  "member_reached_target st m =
     (case map_of (st_fabric st) (nb_fabric m) of
        None \<Rightarrow> False
      | Some fab \<Rightarrow>
          (case map_of (get_fabric_objects fab (nb_kind m)) (nb_name m) of
             None \<Rightarrow> False
           | Some obj \<Rightarrow> n_state obj = Some (nb_state m) \<and> n_status obj = Some SUCCESS))"

definition all_members_reached_target :: "state \<Rightarrow> batch_obj \<Rightarrow> bool" where
  "all_members_reached_target st b =
     list_all (\<lambda>x. member_reached_target st (snd x)) (batch_nodes b PROCESSOR @ batch_nodes b WORKLOAD)"

section \<open>The control flow of create_batch over the fabrics of a batch\<close>

text \<open>
  \<open>create_batch\<close> walks through the fabrics of the batch and, for each, through a fixed
  sequence of stages. What a stage does to the state is modelled in the other sections;
  here only the control flow is kept: which collaborator is called, which failure sets
  \<open>batch_result_success = False\<close> and continues with the next fabric, and which one calls
  \<open>sys.exit\<close>. A job holds, for one fabric, the decisions that the code takes from the
  state before it calls a collaborator (the lists it has built) and the answer of each
  collaborator, \<open>(True, 0)\<close> or \<open>(False, code)\<close>.
\<close>

datatype tool_result = Tool_ok | Tool_failed int

datatype fabric_configure =
    Already_configured bool
  | Ssh_key_rejected
  | No_company_name
  | Configure_runs tool_result

datatype event =
    Fabric_create string tool_result
  | Fabric_configure string tool_result
  | Vpc_create string "string list" tool_result
  | Credentials string bool
  | Nodes_create_check string bool
  | Nodes_create string "string list" tool_result
  | Nodebatch_check string ObjectState ObjectKind
  | Orchestrator_configure string "string list" tool_result
  | Node_action string ObjectKind action "string list" tool_result

record fabric_job =
  j_fabric :: string
  j_fabric_in_batch :: bool
  j_fabric_create :: "tool_result option"
  j_fabric_configure :: fabric_configure
  j_vpcs :: "string list"
  j_vpc_create :: tool_result
  j_nodes :: "string list"
  j_credentials :: bool
  j_create_check :: bool
  j_obj_create :: tool_result
  j_orch_config :: "string list"
  j_docker_credentials :: bool
  j_orchestrator_configure :: tool_result
  j_processor_actions :: "string actions"
  j_processor_results :: "action \<Rightarrow> tool_result"
  j_workload_actions :: "string actions"
  j_workload_results :: "action \<Rightarrow> tool_result"

text \<open>
  How the pass of the loop for one fabric ends: with \<open>continue\<close>, which every branch
  takes after \<open>batch_result_success = False\<close>; at the end of the Ansible zone, with no
  \<open>stop_batch\<close> flag set or with one; or with \<open>sys.exit\<close>.
\<close>

datatype verdict = Continue | Next_fabric bool | Sys_exit int

definition ok :: "tool_result \<Rightarrow> bool" where
  "ok r = (r = Tool_ok)"

fun exit_code :: "tool_result \<Rightarrow> int" where
  "exit_code Tool_ok = 0"
| "exit_code (Tool_failed code) = code"

text \<open>
  The fabric block (lines 91 to 171): \<open>None\<close> for \<open>j_fabric_create\<close> is a fabric that
  exists and is not in (created, failed); \<open>Already_configured failed\<close> is the branch that
  skips the configuration, with the status that the fabric has then. The result is the
  events and whether the block ended in \<open>continue\<close>.
\<close>

definition fabric_block :: "fabric_job \<Rightarrow> event list \<times> bool" where
  "fabric_block j =
     (if \<not> j_fabric_in_batch j then ([], False)
      else
        let created = (case j_fabric_create j of None \<Rightarrow> [] | Some r \<Rightarrow> [Fabric_create (j_fabric j) r])
        in if (case j_fabric_create j of None \<Rightarrow> False | Some r \<Rightarrow> \<not> ok r) then (created, True)
           else
             (case j_fabric_configure j of
                Already_configured failed \<Rightarrow> (created, failed)
              | Ssh_key_rejected \<Rightarrow> (created, True)
              | No_company_name \<Rightarrow> (created, True)
              | Configure_runs r \<Rightarrow> (created @ [Fabric_configure (j_fabric j) r], \<not> ok r)))"

text \<open>
  One kind of node in the Ansible zone (lines 672 to 751): configure, start, stop, each
  followed by the node-batch check; a failed step sets the kind's \<open>stop_batch\<close> flag, and
  the steps after it are skipped together with their checks.
\<close>

definition action_list :: "string actions \<Rightarrow> action \<Rightarrow> string list" where
  "action_list a act = (case act of Config \<Rightarrow> config a | Start \<Rightarrow> start a | Stop \<Rightarrow> stop a)"

definition state_after :: "action \<Rightarrow> ObjectState" where
  "state_after act = (case act of Config \<Rightarrow> CONFIGURED | Start \<Rightarrow> STARTED | Stop \<Rightarrow> STOPPED)"

fun node_steps ::
  "string \<Rightarrow> ObjectKind \<Rightarrow> string actions \<Rightarrow> (action \<Rightarrow> tool_result) \<Rightarrow> action list
     \<Rightarrow> event list \<times> bool" where
  "node_steps fabric_name kind acts results [] = ([], False)"
| "node_steps fabric_name kind acts results (act # later) =
     (let ran = action_list acts act \<noteq> [];
          stop_batch = (ran \<and> \<not> ok (results act));
          here = (if ran then [Node_action fabric_name kind act (action_list acts act) (results act)] else [])
                 @ [Nodebatch_check fabric_name (state_after act) kind]
      in if stop_batch then (here, True)
         else (case node_steps fabric_name kind acts results later of
                 (events, stopped) \<Rightarrow> (here @ events, stopped)))"

definition orchestrator_step :: "fabric_job \<Rightarrow> event list \<times> bool" where
  "orchestrator_step j =
     (if j_orch_config j = [] then ([], False)
      else if \<not> j_docker_credentials j then ([], True)
      else ([Orchestrator_configure (j_fabric j) (j_orch_config j) (j_orchestrator_configure j)],
            \<not> ok (j_orchestrator_configure j)))"

definition ansible_zone :: "fabric_job \<Rightarrow> event list \<times> verdict" where
  "ansible_zone j =
     (case orchestrator_step j of (oe, orch_stop_batch) \<Rightarrow>
      case node_steps (j_fabric j) PROCESSOR (j_processor_actions j) (j_processor_results j)
             [Config, Start, Stop] of (pe, processor_stop_batch) \<Rightarrow>
      case node_steps (j_fabric j) WORKLOAD (j_workload_actions j) (j_workload_results j)
             [Config, Start, Stop] of (we, workload_stop_batch) \<Rightarrow>
        (oe @ pe @ we,
         Next_fabric (\<not> (orch_stop_batch \<or> processor_stop_batch \<or> workload_stop_batch))))"

text \<open>
  The Terraform zone after the fabric block (lines 214 to 495): the VPCs, then the nodes,
  then the two checks for finished node batches.
\<close>

definition node_block :: "fabric_job \<Rightarrow> event list \<times> verdict" where
  "node_block j =
     (let checks = [Nodebatch_check (j_fabric j) CREATED WORKLOAD,
                    Nodebatch_check (j_fabric j) CREATED PROCESSOR]
      in if j_nodes j = [] then
           (case ansible_zone j of (events, v) \<Rightarrow> (checks @ events, v))
         else if \<not> j_credentials j then ([Credentials (j_fabric j) False], Sys_exit 1)
         else if \<not> j_create_check j then
           ([Credentials (j_fabric j) True, Nodes_create_check (j_fabric j) False],
            Continue)
         else if \<not> ok (j_obj_create j) then
           ([Credentials (j_fabric j) True, Nodes_create_check (j_fabric j) True,
             Nodes_create (j_fabric j) (j_nodes j) (j_obj_create j)], Continue)
         else
           (case ansible_zone j of (events, v) \<Rightarrow>
              ([Credentials (j_fabric j) True, Nodes_create_check (j_fabric j) True,
                Nodes_create (j_fabric j) (j_nodes j) (j_obj_create j)] @ checks @ events, v)))"

definition vpc_block :: "fabric_job \<Rightarrow> event list \<times> verdict" where
  "vpc_block j =
     (if j_vpcs j = [] then node_block j
      else if \<not> ok (j_vpc_create j) then
        ([Vpc_create (j_fabric j) (j_vpcs j) (j_vpc_create j)],
         Sys_exit (exit_code (j_vpc_create j)))
      else (case node_block j of
              (events, v) \<Rightarrow> (Vpc_create (j_fabric j) (j_vpcs j) (j_vpc_create j) # events, v)))"

definition process_fabric :: "fabric_job \<Rightarrow> event list \<times> verdict" where
  "process_fabric j =
     (case fabric_block j of
        (events, True) \<Rightarrow> (events, Continue)
      | (events, False) \<Rightarrow> (case vpc_block j of (later, v) \<Rightarrow> (events @ later, v)))"

text \<open>
  The loop over the fabrics, and the end of the command (lines 755 to 768). The passwords
  that lines 761 and 764 read are local variables assigned at the start of the Ansible
  zone only (lines 645 and 646): when no fabric of the batch got that far, the read raises
  \<open>UnboundLocalError\<close> before \<open>sys.exit(1)\<close> is reached.
\<close>

fun batch_loop :: "fabric_job list \<Rightarrow> bool \<Rightarrow> bool \<Rightarrow> event list \<times> ending" where
  "batch_loop [] batch_result_success passwd_bound =
     ([], if \<not> passwd_bound then Raised UnboundLocalError
          else if batch_result_success then Return_True else Exit 1)"
| "batch_loop (j # js) batch_result_success passwd_bound =
     (case process_fabric j of
        (events, Sys_exit code) \<Rightarrow> (events, Exit code)
      | (events, Continue) \<Rightarrow>
          (case batch_loop js False passwd_bound of (later, e) \<Rightarrow> (events @ later, e))
      | (events, Next_fabric success) \<Rightarrow>
          (case batch_loop js (batch_result_success \<and> success) True of
             (later, e) \<Rightarrow> (events @ later, e)))"

definition create_batch :: "fabric_job list \<Rightarrow> event list \<times> ending" where
  "create_batch jobs = batch_loop jobs True False"




text \<open>
  The events in which an external tool (Terraform or Ansible) failed, and the stages that
  depend on a failed one: after a failed configure, start or stop step of processors or of
  workloads, the later steps of the same kind; after a failed configuration of the
  orchestrators, none; after any other failure, everything that would follow for the
  fabric.
\<close>

fun failed :: "event \<Rightarrow> bool" where
  "failed (Fabric_create fabric_name r) = (\<not> ok r)"
| "failed (Fabric_configure fabric_name r) = (\<not> ok r)"
| "failed (Vpc_create fabric_name l r) = (\<not> ok r)"
| "failed (Nodes_create fabric_name l r) = (\<not> ok r)"
| "failed (Orchestrator_configure fabric_name l r) = (\<not> ok r)"
| "failed (Node_action fabric_name kind act l r) = (\<not> ok r)"
| "failed (Credentials fabric_name b) = False"
| "failed (Nodes_create_check fabric_name b) = False"
| "failed (Nodebatch_check fabric_name s kind) = False"



text \<open>
  The events that have to follow an event at once for the node-batch check to run after
  it: the check of the state that a configure, start or stop step leads to, and the two
  checks for CREATED after a node creation that did not fail.
\<close>

fun followers :: "event \<Rightarrow> event list" where
  "followers (Node_action fabric_name kind act l r) =
     [Nodebatch_check fabric_name (state_after act) kind]"
| "followers (Nodes_create fabric_name l Tool_ok) =
     [Nodebatch_check fabric_name CREATED WORKLOAD, Nodebatch_check fabric_name CREATED PROCESSOR]"
| "followers e = []"

fun checked_after :: "event list \<Rightarrow> bool" where
  "checked_after [] = True"
| "checked_after (e # rest) = (prefix (followers e) rest \<and> checked_after rest)"

subsection \<open>Expanding a node batch (create_batch, lines 316 to 386)\<close>

text \<open>
  A node batch of the batch file: its name, the templates and the instance count. The loop
  over the templates leaves its variable on the last template, and the VPC, the node type
  and the copied configuration and target state are read from that one; with no template
  the variable is still \<open>{}\<close> and the first subscript raises \<open>KeyError\<close>.
\<close>

record nodebatch_template =
  t_kind :: string
  t_vpc :: string
  t_config :: "(string \<times> string) list"
  t_state :: ObjectState

record nodebatch_spec =
  nbs_name :: string
  nbs_template :: "nodebatch_template list"
  nbs_instance_count :: nat

definition node_types_list :: "(string \<times> ObjectKind \<times> string) list" where
  "node_types_list = [(''processor'', PROCESSOR, ''p''), (''workload'', WORKLOAD, ''w'')]"

definition generate_nodes ::
  "string \<Rightarrow> ObjectKind \<Rightarrow> string \<Rightarrow> int \<Rightarrow> nodebatch_template \<Rightarrow> nat \<Rightarrow> nb_node list" where
  "generate_nodes fabric_name kind char_type nodebatch_node_index tmpl instance_count =
     map (\<lambda>i. \<lparr>nb_kind = kind, nb_fabric = fabric_name,
                nb_name = nodebatch_node_name (t_vpc tmpl) char_type
                            (nodebatch_node_index + int i) fabric_name,
                nb_vpc = t_vpc tmpl, nb_config = t_config tmpl, nb_state = t_state tmpl\<rparr>)
         [0..<instance_count]"

text \<open>
  How the expansion of one node batch ends: dropped from the list of node batches (the
  fabric or the VPC is missing), left in the list but not processed (a node type that is
  neither processor nor workload), newly recorded with its generated members, or found in
  the state and resumed.
\<close>

datatype expansion_end = Dropped | Unsupported | Recorded | Resumed

record expansion =
  x_state :: state
  x_end :: expansion_end
  x_kind :: ObjectKind
  x_generated :: "nb_node list"

definition expand_nodebatch :: "state \<Rightarrow> string \<Rightarrow> nodebatch_spec \<Rightarrow> py_error + expansion" where
  "expand_nodebatch temp_node_state fabric_name nb =
     (if nbs_template nb = [] then Inl KeyError
      else
        let obj = last (nbs_template nb);
            nodebatch_vpc = t_vpc obj;
            nodebatch_node_type = normalise_string (t_kind obj);
            skip = (\<lambda>e. Inr \<lparr>x_state = temp_node_state, x_end = e, x_kind = NODEBATCH,
                              x_generated = []\<rparr>)
        in (case map_of (st_fabric temp_node_state) fabric_name of
              None \<Rightarrow> skip Dropped
            | Some fab \<Rightarrow>
                if \<not> check_vpc fab nodebatch_vpc then skip Dropped
                else
                  (case map_of node_types_list nodebatch_node_type of
                     None \<Rightarrow> skip Unsupported
                   | Some (kind, char_type) \<Rightarrow>
                       if \<not> check_nodebatch temp_node_state (nbs_name nb) then
                         let nodebatch_state_obj =
                               set_batch_nodes \<lparr>b_state = Some CREATED, b_workload = None,
                                                b_processor = None\<rparr> kind [];
                             added = add_batch temp_node_state (nbs_name nb) nodebatch_state_obj;
                             nodebatch_node_vpc_list =
                               filter (in_vpc nodebatch_vpc) (get_fabric_objects fab kind);
                             nodebatch_node_index =
                               (if nodebatch_node_vpc_list = [] then 1
                                else max_index nodebatch_node_vpc_list + 1);
                             nodes = generate_nodes fabric_name kind char_type
                                       nodebatch_node_index obj (nbs_instance_count nb)
                         in Inr \<lparr>x_state = fold (\<lambda>n s. add_batch_obj s (nbs_name nb) kind (nb_name n) n)
                                              nodes added,
                                 x_end = Recorded, x_kind = kind, x_generated = nodes\<rparr>
                       else
                         Inr \<lparr>x_state = temp_node_state, x_end = Resumed, x_kind = kind,
                              x_generated = []\<rparr>)))"

subsection \<open>Processing the members of a node batch (lines 387 to 456)\<close>

definition set_fabric_objects ::
  "fabric_obj \<Rightarrow> ObjectKind \<Rightarrow> (string \<times> node_obj) list \<Rightarrow> fabric_obj" where
  "set_fabric_objects fab kind objs =
     (if kind = PROCESSOR then fab\<lparr>f_processor := objs\<rparr>
      else if kind = WORKLOAD then fab\<lparr>f_workload := objs\<rparr>
      else if kind = ORCHESTRATOR then fab\<lparr>f_orchestrator := objs\<rparr>
      else fab)"

text \<open>
  The loop state: the temporary state, the names to create (\<open>temp_nodes_list\<close> of the
  kind), the index counters (\<open>node_index_list\<close>, by VPC and node type) and the names
  appended to \<open>create_target\<close> for the configuration stage.
\<close>

record gen =
  g_state :: state
  g_temp_nodes :: "string list"
  g_index_list :: "((string \<times> ObjectKind) \<times> int) list"
  g_targets :: "string list"

definition process_batch_node :: "string \<Rightarrow> ObjectKind \<Rightarrow> nb_node \<Rightarrow> gen \<Rightarrow> gen" where
  "process_batch_node fabric_name kind node_obj g =
     (let node = nb_name node_obj;
          node_vpc = nb_vpc node_obj;
          g1 = g\<lparr>g_temp_nodes := g_temp_nodes g @ [node]\<rparr>;
          dropped = g1\<lparr>g_temp_nodes := remove1 node (g_temp_nodes g1)\<rparr>
      in if \<not> check_fabric (g_state g) (nb_fabric node_obj) then dropped
         else
           (case map_of (st_fabric (g_state g)) fabric_name of
              None \<Rightarrow> dropped
            | Some fab \<Rightarrow>
                if \<not> check_vpc fab node_vpc then dropped
                else
                  (case map_of (get_fabric_objects fab kind) node of
                     Some node_state_obj \<Rightarrow>
                       if check_object_state_status node_state_obj CREATED SUCCESS then
                         dropped\<lparr>g_targets := g_targets g @ [node]\<rparr>
                       else
                         let new_node = node_state_obj\<lparr>n_vpc := node_vpc,
                                          n_index := n_index node_state_obj,
                                          n_dns_enabled := ''false''\<rparr>
                         in g1\<lparr>g_state := put_fabric (g_state g) fabric_name
                                  (set_fabric_objects fab kind
                                     (add_fabric_obj (get_fabric_objects fab kind) node new_node)),
                               g_targets := g_targets g @ [node]\<rparr>
                   | None \<Rightarrow>
                       let node_index =
                             (case map_of (g_index_list g) (node_vpc, kind) of
                                Some counter \<Rightarrow> counter + 1
                              | None \<Rightarrow>
                                  let type_node_list =
                                        filter (in_vpc node_vpc) (get_fabric_objects fab kind)
                                  in if type_node_list = [] then 1
                                     else max_index type_node_list + 1);
                           new_node = get_clean_node\<lparr>n_vpc := node_vpc, n_index := node_index,
                                                      n_dns_enabled := ''false''\<rparr>
                       in g1\<lparr>g_state := put_fabric (g_state g) fabric_name
                                (set_fabric_objects fab kind
                                   (add_fabric_obj (get_fabric_objects fab kind) node new_node)),
                             g_index_list := AList.update (node_vpc, kind) node_index (g_index_list g),
                             g_targets := g_targets g @ [node]\<rparr>)))"

subsection \<open>One run of create_batch for a batch that declares one node batch\<close>

text \<open>
  \<open>obj_create\<close> on the names of one kind: what it leaves on each object, and whether it
  returned success.
\<close>

definition obj_create ::
  "fabric_obj \<Rightarrow> ObjectKind \<Rightarrow> string list \<Rightarrow> (string \<Rightarrow> obj_create_result) \<Rightarrow> fabric_obj" where
  "obj_create fab kind names result =
     set_fabric_objects fab kind
       (map (\<lambda>x. if fst x \<in> set names then (fst x, obj_create_effect (result (fst x)) (snd x))
                  else x)
            (get_fabric_objects fab kind))"

definition obj_create_ok :: "string list \<Rightarrow> (string \<Rightarrow> obj_create_result) \<Rightarrow> bool" where
  "obj_create_ok names result = list_all (\<lambda>n. result n = Create_ok) names"

record run =
  r_verdict :: verdict
  r_state :: state
  r_generated :: "nb_node list"

text \<open>
  The run from the expansion to the end of the Terraform zone, where the node batch is
  checked for the state CREATED; \<open>r_state\<close> is the state that the run has committed
  (\<open>ctx.obj.state\<close>). The Ansible zone that follows changes neither the batch map nor the
  names and indices of the nodes.
\<close>

text \<open>Lines 487 to 495: the two checks for node batches that are finished.\<close>

definition finish_checks :: "state \<Rightarrow> string list \<Rightarrow> nb_node list \<Rightarrow> py_error + run" where
  "finish_checks temp_node_state targets generated =
     (case nodebatch_check_success temp_node_state targets CREATED WORKLOAD of
        Inl e \<Rightarrow> Inl e
      | Inr (s1, targets1) \<Rightarrow>
          (case nodebatch_check_success s1 targets1 CREATED PROCESSOR of
             Inl e \<Rightarrow> Inl e
           | Inr (s2, targets2) \<Rightarrow>
               Inr \<lparr>r_verdict = Next_fabric True, r_state = s2, r_generated = generated\<rparr>))"

text \<open>
  Lines 388 and 389: \<open>nodebatch_obj[nodebatch_node_type]\<close> is a subscript, and raises
  \<open>KeyError\<close> when the batch found in the state has no map of the kind of the template
  (a batch recorded for workloads, resumed with a template for processors).
\<close>

definition nodebatch_type_nodes :: "batch_obj \<Rightarrow> ObjectKind \<Rightarrow> py_error + (string \<times> nb_node) list" where
  "nodebatch_type_nodes nodebatch_obj kind =
     (case (if kind = PROCESSOR then b_processor nodebatch_obj
            else if kind = WORKLOAD then b_workload nodebatch_obj
            else None) of
        None \<Rightarrow> Inl KeyError
      | Some m \<Rightarrow> Inr m)"

text \<open>
  The members that the loop of lines 391 to 456 runs over; the loop is not reached for a
  node batch that was dropped or has an unsupported node type.
\<close>

definition batch_members :: "expansion \<Rightarrow> string \<Rightarrow> py_error + nb_node list" where
  "batch_members x name =
     (if x_end x = Recorded \<or> x_end x = Resumed
      then (case get_nodebatch (x_state x) name of
              None \<Rightarrow> Inl TypeError
            | Some nodebatch_obj \<Rightarrow>
                (case nodebatch_type_nodes nodebatch_obj (x_kind x) of
                   Inl e \<Rightarrow> Inl e
                 | Inr m \<Rightarrow> Inr (map snd m)))
      else Inr [])"

definition resolve_nodebatch ::
  "state \<Rightarrow> string \<Rightarrow> nodebatch_spec \<Rightarrow> bool \<Rightarrow> (string \<Rightarrow> obj_create_result)
     \<Rightarrow> py_error + run" where
  "resolve_nodebatch st fabric_name nb credentials result =
     (case expand_nodebatch st fabric_name nb of
        Inl e \<Rightarrow> Inl e
      | Inr x \<Rightarrow>
      (case batch_members x (nbs_name nb) of
        Inl e \<Rightarrow> Inl e
      | Inr members \<Rightarrow>
          let committed = (if x_end x = Recorded then x_state x else st);
              targets = (if x_end x = Dropped then [] else [nbs_name nb]);
              g = fold (process_batch_node fabric_name (x_kind x)) members
                    \<lparr>g_state = x_state x, g_temp_nodes = [], g_index_list = [], g_targets = []\<rparr>
          in if g_temp_nodes g = [] then finish_checks (g_state g) targets (x_generated x)
             else if \<not> credentials then
               Inr \<lparr>r_verdict = Sys_exit 1, r_state = committed, r_generated = x_generated x\<rparr>
             else
               (case map_of (st_fabric (g_state g)) fabric_name of
                  None \<Rightarrow> Inl KeyError
                | Some fab \<Rightarrow>
                    if \<not> obj_create_check fab (x_kind x) (g_temp_nodes g) then
                      Inr \<lparr>r_verdict = Continue, r_state = committed,
                           r_generated = x_generated x\<rparr>
                    else
                      let created = put_fabric (g_state g) fabric_name
                                      (obj_create fab (x_kind x) (g_temp_nodes g) result)
                      in if \<not> obj_create_ok (g_temp_nodes g) result then
                           Inr \<lparr>r_verdict = Continue, r_state = created,
                                r_generated = x_generated x\<rparr>
                         else finish_checks created targets (x_generated x))))"




section \<open>Orchestrators in a batch (create_batch, lines 223 to 314 and 575 to 593)\<close>

text \<open>An orchestrator entry of the batch file.\<close>

record node_spec =
  ns_name :: string
  ns_fabric :: string
  ns_vpc :: string
  ns_type :: string
  ns_role :: string
  ns_state :: ObjectState

datatype warning =
    Orchestrator_exists string
  | Orchestrator_duplicate string
  | Fabric_missing string
  | Vpc_missing string
  | Node_exists string

text \<open>
  The state of the generation loop for the kind ORCHESTRATOR: the temporary state, the
  names still to create (\<open>temp_nodes_list\<close>), the flags \<open>orchestrator_in_batch\<close>, the
  index counters of the kind by VPC, and the warnings logged.
\<close>

record orch_gen =
  og_state :: state
  og_temp_nodes :: "string list"
  og_in_batch :: "(string \<times> bool) list"
  og_index_list :: "(string \<times> int) list"
  og_warnings :: "warning list"

definition orchestrator_in_batch :: "(string \<times> bool) list" where
  "orchestrator_in_batch = [(''controller'', False), (''telemetry'', False), (''events'', False)]"

text \<open>
  Line 239: an orchestrator of the fabric, under another name, whose type contains the
  type of the entry and whose status is success.
\<close>

definition same_type_exists :: "fabric_obj \<Rightarrow> string \<Rightarrow> string \<Rightarrow> bool" where
  "same_type_exists fab orch_type node =
     (filter (\<lambda>x. has_type_success orch_type x \<and> node \<noteq> fst x) (f_orchestrator fab) \<noteq> [])"

text \<open>
  Lines 259 to 314 for an orchestrator: the checks of the parents, the node that exists
  already, the index, and the object written to the temporary state with the role and the
  type of the batch entry.
\<close>

definition place_orchestrator ::
  "string \<Rightarrow> fabric_obj \<Rightarrow> node_spec \<Rightarrow> string \<Rightarrow> orch_gen \<Rightarrow> orch_gen" where
  "place_orchestrator fabric_name fab node_obj node g =
     (let node_vpc = ns_vpc node_obj;
          dropped = (\<lambda>w. g\<lparr>og_temp_nodes := remove1 node (og_temp_nodes g),
                             og_warnings := og_warnings g @ [w]\<rparr>);
          store = (\<lambda>new_node.
                     put_fabric (og_state g) fabric_name
                       (fab\<lparr>f_orchestrator := add_fabric_obj (f_orchestrator fab) node new_node\<rparr>))
      in if \<not> check_fabric (og_state g) (ns_fabric node_obj) then dropped (Fabric_missing fabric_name)
         else if \<not> check_vpc fab node_vpc then dropped (Vpc_missing node_vpc)
         else
           (case map_of (f_orchestrator fab) node of
              Some node_state_obj \<Rightarrow>
                if check_object_state_status node_state_obj CREATED FAILED then
                  g\<lparr>og_state := store (node_state_obj\<lparr>n_vpc := node_vpc,
                                          n_index := n_index node_state_obj,
                                          n_dns_enabled := ''false'',
                                          n_role := Some (ns_role node_obj),
                                          n_type := Some (ns_type node_obj)\<rparr>)\<rparr>
                else dropped (Node_exists node)
            | None \<Rightarrow>
                let node_index =
                      (case map_of (og_index_list g) node_vpc of
                         Some counter \<Rightarrow> counter + 1
                       | None \<Rightarrow>
                           let type_node_list = filter (in_vpc node_vpc) (f_orchestrator fab)
                           in if type_node_list = [] then 1 else max_index type_node_list + 1)
                in g\<lparr>og_state := store (get_clean_node\<lparr>n_vpc := node_vpc, n_index := node_index,
                                          n_dns_enabled := ''false'',
                                          n_role := Some (ns_role node_obj),
                                          n_type := Some (ns_type node_obj)\<rparr>),
                      og_index_list := AList.update node_vpc node_index (og_index_list g)\<rparr>))"

text \<open>
  One pass of the loop for an orchestrator. The entry is looked up by its name among all
  orchestrators of the batch (\<open>[...][0]\<close>); the orchestrators of the fabric are read from
  the state before the fabric is checked (\<open>get_fabric\<close> gives \<open>None\<close> for a fabric that
  is not there, and \<open>.get\<close> on it raises \<open>AttributeError\<close>); the flags are a dictionary
  with the three types as keys.
\<close>

definition generate_orchestrator ::
  "string \<Rightarrow> node_spec list \<Rightarrow> string \<Rightarrow> orch_gen \<Rightarrow> py_error + orch_gen" where
  "generate_orchestrator fabric_name batch_list node g =
     (case find (\<lambda>item. ns_name item = node) batch_list of
        None \<Rightarrow> Inl IndexError
      | Some node_obj \<Rightarrow>
          (case map_of (st_fabric (og_state g)) fabric_name of
             None \<Rightarrow> Inl AttributeError
           | Some fab \<Rightarrow>
               let orch_type = ns_type node_obj in
               if same_type_exists fab orch_type node then
                 Inr (g\<lparr>og_temp_nodes := remove1 node (og_temp_nodes g),
                        og_warnings := og_warnings g @ [Orchestrator_exists orch_type]\<rparr>)
               else
                 (case map_of (og_in_batch g) orch_type of
                    None \<Rightarrow> Inl KeyError
                  | Some True \<Rightarrow> Inr (g\<lparr>og_temp_nodes := remove1 node (og_temp_nodes g)\<rparr>)
                  | Some False \<Rightarrow>
                      let orch_list = filter (\<lambda>item. ns_type item = orch_type \<and> ns_name item \<noteq> node)
                                        batch_list;
                          g1 = (if orch_list \<noteq> [] then
                                  g\<lparr>og_in_batch := AList.update orch_type True (og_in_batch g),
                                    og_warnings := og_warnings g @ [Orchestrator_duplicate orch_type]\<rparr>
                                else g)
                      in Inr (place_orchestrator fabric_name fab node_obj node g1))))"

fun generate_orchestrators ::
  "string \<Rightarrow> node_spec list \<Rightarrow> string list \<Rightarrow> orch_gen \<Rightarrow> py_error + orch_gen" where
  "generate_orchestrators fabric_name batch_list [] g = Inr g"
| "generate_orchestrators fabric_name batch_list (node # nodes) g =
     (case generate_orchestrator fabric_name batch_list node g of
        Inl e \<Rightarrow> Inl e
      | Inr g' \<Rightarrow> generate_orchestrators fabric_name batch_list nodes g')"

text \<open>\<open>create_target[fabric][ORCHESTRATOR]\<close>: the names of the batch entries of the fabric.\<close>

definition create_target :: "node_spec list \<Rightarrow> string \<Rightarrow> string list" where
  "create_target batch_list fabric_name =
     map ns_name (filter (\<lambda>item. ns_fabric item = fabric_name) batch_list)"

definition generate :: "state \<Rightarrow> string \<Rightarrow> node_spec list \<Rightarrow> py_error + orch_gen" where
  "generate st fabric_name batch_list =
     generate_orchestrators fabric_name batch_list (create_target batch_list fabric_name)
       \<lparr>og_state = st, og_temp_nodes = create_target batch_list fabric_name,
        og_in_batch = orchestrator_in_batch, og_index_list = [], og_warnings = []\<rparr>"

subsection \<open>Planning the configuration of the orchestrators\<close>

text \<open>
  Lines 575 to 593. The loop runs over every name that the batch declares for the fabric,
  created in this run or not. The actions dictionary has the \<open>config\<close> key only.
\<close>

fun plan_orchestrators ::
  "state \<Rightarrow> string \<Rightarrow> node_spec list \<Rightarrow> string list \<Rightarrow> string actions \<Rightarrow> py_error + string actions" where
  "plan_orchestrators temp_state fabric_name batch_list [] orch_actions = Inr orch_actions"
| "plan_orchestrators temp_state fabric_name batch_list (orch # rest) orch_actions =
     (case find (\<lambda>item. ns_name item = orch) batch_list of
        None \<Rightarrow> Inl IndexError
      | Some orch_obj \<Rightarrow>
          if \<not> check_fabric temp_state (ns_fabric orch_obj) then
            plan_orchestrators temp_state fabric_name batch_list rest orch_actions
          else
            (case map_of (st_fabric temp_state) fabric_name of
               None \<Rightarrow> Inl KeyError
             | Some fab \<Rightarrow>
                 (case map_of (f_orchestrator fab) orch of
                    None \<Rightarrow> plan_orchestrators temp_state fabric_name batch_list rest orch_actions
                  | Some curr_obj \<Rightarrow>
                      let a = set_action_list (n_state curr_obj) (n_status curr_obj)
                                (ns_state orch_obj) orch_actions orch ORCHESTRATOR () ()
                      in if start a \<noteq> [] \<or> stop a \<noteq> [] then Inl KeyError
                         else plan_orchestrators temp_state fabric_name batch_list rest a)))"

subsection \<open>One run of create_batch for a batch that declares orchestrators only\<close>

record orch_run =
  or_verdict :: verdict
  or_state :: state
  or_created :: "string list"
  or_config :: "string list"
  or_warnings :: "warning list"

text \<open>
  The generation, the creation of the names left in \<open>temp_nodes_list\<close> and, unless the
  creation failed, the planning on the committed state. \<open>or_created\<close> are the names
  handed to \<open>obj_create\<close>, \<open>or_config\<close> the names that \<open>orchestrator_configure\<close> is
  called with.
\<close>

definition resolve_orchestrators ::
  "state \<Rightarrow> string \<Rightarrow> node_spec list \<Rightarrow> bool \<Rightarrow> (string \<Rightarrow> obj_create_result)
     \<Rightarrow> py_error + orch_run" where
  "resolve_orchestrators st fabric_name batch_list credentials result =
     (case generate st fabric_name batch_list of
        Inl e \<Rightarrow> Inl e
      | Inr g \<Rightarrow>
          let names = create_target batch_list fabric_name;
              plan_on = (\<lambda>committed created.
                 case plan_orchestrators committed fabric_name batch_list names no_actions of
                   Inl e \<Rightarrow> Inl e
                 | Inr a \<Rightarrow> Inr \<lparr>or_verdict = Next_fabric True, or_state = committed,
                                   or_created = created, or_config = config a,
                                   or_warnings = og_warnings g\<rparr>)
          in if og_temp_nodes g = [] then plan_on (og_state g) []
             else if \<not> credentials then
               Inr \<lparr>or_verdict = Sys_exit 1, or_state = st, or_created = [], or_config = [],
                    or_warnings = og_warnings g\<rparr>
             else
               (case map_of (st_fabric (og_state g)) fabric_name of
                  None \<Rightarrow> Inl KeyError
                | Some fab \<Rightarrow>
                    let created = put_fabric (og_state g) fabric_name
                                    (obj_create fab ORCHESTRATOR (og_temp_nodes g) result)
                    in if \<not> obj_create_ok (og_temp_nodes g) result then
                         Inr \<lparr>or_verdict = Continue, or_state = created,
                              or_created = og_temp_nodes g, or_config = [],
                              or_warnings = og_warnings g\<rparr>
                       else plan_on created (og_temp_nodes g)))"

text \<open>The orchestrators of a fabric in a state; none for a fabric that is not there.\<close>

definition orch_objs :: "state \<Rightarrow> string \<Rightarrow> (string \<times> node_obj) list" where
  "orch_objs st fabric_name =
     (case map_of (st_fabric st) fabric_name of None \<Rightarrow> [] | Some fab \<Rightarrow> f_orchestrator fab)"


text \<open>What one pass of the generation loop does to a node: it drops it, or it places it.\<close>

definition dropped :: "string \<Rightarrow> orch_gen \<Rightarrow> orch_gen \<Rightarrow> bool" where
  "dropped n g g' = (og_state g' = og_state g \<and> og_temp_nodes g' = remove1 n (og_temp_nodes g))"

definition placed :: "string \<Rightarrow> string \<Rightarrow> orch_gen \<Rightarrow> orch_gen \<Rightarrow> bool" where
  "placed f n g g' =
     (og_temp_nodes g' = og_temp_nodes g
      \<and> (\<exists>new. orch_objs (og_state g') f = AList.update n new (orch_objs (og_state g) f)
            \<and> n_status new \<noteq> Some SUCCESS)
      \<and> (\<forall>old. map_of (orch_objs (og_state g) f) n = Some old \<longrightarrow> n_status old = Some FAILED))"









text \<open>What a run created, what it configures and what it warned about.\<close>

definition created_configured_warned ::
  "py_error + orch_run \<Rightarrow> py_error + string list \<times> string list \<times> warning list" where
  "created_configured_warned outcome =
     (case outcome of Inl e \<Rightarrow> Inl e | Inr r \<Rightarrow> Inr (or_created r, or_config r, or_warnings r))"


section \<open>Configuring orchestrators (session/state.py, orchestrator_configure)\<close>

text \<open>
  The answers of Ansible to \<open>orchestrator_configure\<close>: the inventory and the playbook of
  the swarm manager, then the inventory and the playbook of the orchestrators.
\<close>

record configure_externals =
  ce_swarm_inventory :: bool
  ce_swarm_playbook :: tool_result
  ce_inventory :: bool
  ce_playbook :: tool_result

text \<open>The tuple that \<open>orchestrator_configure\<close> returns, and the state it leaves.\<close>

record configure_result =
  cr_ok :: bool
  cr_code :: int
  cr_state :: state

text \<open>
  The first loop: an orchestrator of the list that is created with status failed stops
  the call; a name that is not in the state raises \<open>KeyError\<close>.
\<close>

fun created_failed_in :: "(string \<times> node_obj) list \<Rightarrow> string list \<Rightarrow> py_error + bool" where
  "created_failed_in objs [] = Inr False"
| "created_failed_in objs (orchestrator # rest) =
     (case map_of objs orchestrator of
        None \<Rightarrow> Inl KeyError
      | Some orch \<Rightarrow>
          if n_status orch = Some FAILED \<and> n_state orch = Some CREATED then Inr True
          else created_failed_in objs rest)"

text \<open>\<open>'manager' in x[1]['role']\<close>: a substring test, false on the \<open>{}\<close> of an unset role.\<close>

definition is_manager :: "string \<times> node_obj \<Rightarrow> bool" where
  "is_manager x = (case n_role (snd x) of None \<Rightarrow> False | Some role \<Rightarrow> sublist ''manager'' role)"

text \<open>
  The loop that assigns the roles when the fabric has no manager: every controller of the
  list becomes a manager, every other orchestrator of the list a worker.
\<close>

fun assign_roles ::
  "string list \<Rightarrow> (string \<times> node_obj) list \<Rightarrow> bool \<Rightarrow> py_error + (string \<times> node_obj) list \<times> bool" where
  "assign_roles [] objs manager_found = Inr (objs, manager_found)"
| "assign_roles (orch # rest) objs manager_found =
     (case map_of objs orch of
        None \<Rightarrow> Inl KeyError
      | Some obj \<Rightarrow>
          if n_type obj = Some ''controller''
          then assign_roles rest (AList.update orch (obj\<lparr>n_role := Some ''manager''\<rparr>) objs) True
          else assign_roles rest (AList.update orch (obj\<lparr>n_role := Some ''worker''\<rparr>) objs)
                 manager_found)"

text \<open>\<open>set_object_state_status\<close> on every orchestrator of the list.\<close>

fun set_state_status_all ::
  "string list \<Rightarrow> ObjectState \<Rightarrow> ObjectStatus \<Rightarrow> (string \<times> node_obj) list
     \<Rightarrow> py_error + (string \<times> node_obj) list" where
  "set_state_status_all [] s t objs = Inr objs"
| "set_state_status_all (orchestrator # rest) s t objs =
     (case map_of objs orchestrator of
        None \<Rightarrow> Inl KeyError
      | Some obj \<Rightarrow>
          set_state_status_all rest s t
            (AList.update orchestrator (obj\<lparr>n_state := Some s, n_status := Some t\<rparr>) objs))"

text \<open>
  \<open>orchestrator_configure\<close>. The variables of the inventory (branch, passwords, SSH
  proxies, credentials) are read from the state and the configuration and change nothing;
  they are left out. The roles are written before Ansible runs, so they stay in the state
  that the call leaves when a later step fails.
\<close>

definition orchestrator_configure ::
  "state \<Rightarrow> string \<Rightarrow> string list \<Rightarrow> ObjectState \<Rightarrow> configure_externals
     \<Rightarrow> py_error + configure_result" where
  "orchestrator_configure st fabric_name orchestrator_list orch_state ext =
     (case map_of (st_fabric st) fabric_name of
        None \<Rightarrow> Inl KeyError
      | Some fab \<Rightarrow>
          (case created_failed_in (f_orchestrator fab) orchestrator_list of
             Inl e \<Rightarrow> Inl e
           | Inr True \<Rightarrow> Inr \<lparr>cr_ok = False, cr_code = 1, cr_state = st\<rparr>
           | Inr False \<Rightarrow>
               (case (if filter is_manager (f_orchestrator fab) = []
                      then assign_roles orchestrator_list (f_orchestrator fab) False
                      else Inr (f_orchestrator fab, True)) of
                  Inl e \<Rightarrow> Inl e
                | Inr (objs, manager_found) \<Rightarrow>
                    let with_roles = put_fabric st fabric_name (fab\<lparr>f_orchestrator := objs\<rparr>);
                        finish = (\<lambda>status ok code.
                          case set_state_status_all orchestrator_list orch_state status objs of
                            Inl e \<Rightarrow> Inl e
                          | Inr done \<Rightarrow>
                              Inr \<lparr>cr_ok = ok, cr_code = code,
                                   cr_state = put_fabric st fabric_name
                                                (fab\<lparr>f_orchestrator := done\<rparr>)\<rparr>)
                    in if \<not> manager_found then
                         Inr \<lparr>cr_ok = False, cr_code = 1, cr_state = with_roles\<rparr>
                       else
                         (case filter is_manager objs of
                            [] \<Rightarrow> Inl IndexError
                          | manager # others \<Rightarrow>
                              if \<not> ce_swarm_inventory ext then
                                Inr \<lparr>cr_ok = False, cr_code = 1, cr_state = with_roles\<rparr>
                              else
                                (case ce_swarm_playbook ext of
                                   Tool_failed code \<Rightarrow>
                                     Inr \<lparr>cr_ok = False, cr_code = code, cr_state = with_roles\<rparr>
                                 | Tool_ok \<Rightarrow>
                                     if \<not> ce_inventory ext then
                                       Inr \<lparr>cr_ok = False, cr_code = 1, cr_state = with_roles\<rparr>
                                     else
                                       (case ce_playbook ext of
                                          Tool_failed code \<Rightarrow> finish FAILED False code
                                        | Tool_ok \<Rightarrow> finish SUCCESS True 0))))))"

subsection \<open>The managers of a fabric\<close>

text \<open>The orchestrators with \<open>role = manager\<close>, and the controllers that a list names.\<close>

definition has_role_manager :: "string \<times> node_obj \<Rightarrow> bool" where
  "has_role_manager x = (n_role (snd x) = Some ''manager'')"

definition named_controller :: "string list \<Rightarrow> string \<times> node_obj \<Rightarrow> bool" where
  "named_controller orchestrator_list x =
     (fst x \<in> set orchestrator_list \<and> n_type (snd x) = Some ''controller'')"

text \<open>At most one object of a dictionary has a property: any two that have it are one.\<close>

definition at_most_one :: "(string \<times> node_obj \<Rightarrow> bool) \<Rightarrow> (string \<times> node_obj) list \<Rightarrow> bool" where
  "at_most_one P objs =
     list_all (\<lambda>x. list_all (\<lambda>y. \<not> (P x \<and> P y) \<or> fst x = fst y) objs) objs"

definition manager_names :: "(string \<times> node_obj) list \<Rightarrow> string list" where
  "manager_names objs = map fst (filter has_role_manager objs)"

definition managers_after :: "string \<Rightarrow> py_error + orch_run \<Rightarrow> py_error + string list" where
  "managers_after fabric_name outcome =
     (case outcome of
        Inl e \<Rightarrow> Inl e
      | Inr r \<Rightarrow> Inr (manager_names (orch_objs (or_state r) fabric_name)))"

section \<open>Example states\<close>

definition p01 :: node_obj where
  "p01 = \<lparr>n_index = 1, n_vpc = ''aws1-vpc-f'', n_state = Some CREATED, n_status = Some SUCCESS,
           n_role = None, n_type = None, n_dns_enabled = ''true''\<rparr>"

definition vpc1 :: vpc_obj where
  "vpc1 = \<lparr>v_cloud = ''aws'', v_region = ''us-east-1'', v_index = 1,
            v_state = Some CREATED, v_status = Some SUCCESS\<rparr>"

definition fabric_f :: fabric_obj where
  "fabric_f = \<lparr>f_state = Some CONFIGURED, f_status = Some SUCCESS,
               f_vpc = [(''aws1-vpc-f'', vpc1)],
               f_orchestrator = [], f_processor = [(''aws1-p01-f'', p01)],
               f_workload = [(''aws1-w01-f'', p01)]\<rparr>"

definition state_f :: state where
  "state_f = \<lparr>st_batch = [], st_fabric = [(''f'', fabric_f)], cfg_current_fabric = Some ''f''\<rparr>"


definition all_fine :: externals where
  "all_fine = \<lparr>credentials_ok = True, plan_generate_ok = True, plan_execute_res = (True, 0)\<rparr>"

definition vpc1_failed :: vpc_obj where
  "vpc1_failed = vpc1\<lparr>v_status := Some FAILED\<rparr>"

text \<open>
  A fabric with two processors in its VPC, in the order of the keys of the state file: one
  that a node batch generated and created, with index 2, and one that a batch declared
  under the name \<open>zeta\<close>, with index 1, whose creation failed.
\<close>

definition p02 :: node_obj where
  "p02 = p01\<lparr>n_index := 2\<rparr>"

definition zeta_failed :: node_obj where
  "zeta_failed = p01\<lparr>n_status := Some FAILED, n_dns_enabled := ''false''\<rparr>"

definition state_zeta :: state where
  "state_zeta =
     \<lparr>st_batch = [],
      st_fabric = [(''f'', fabric_f\<lparr>f_processor := [(''aws1-p02-f'', p02), (''zeta'', zeta_failed)]\<rparr>)],
      cfg_current_fabric = Some ''f''\<rparr>"

text \<open>The same fabric once the command has marked the processor with index 2 failed.\<close>

definition state_zeta_overwritten :: state where
  "state_zeta_overwritten =
     \<lparr>st_batch = [],
      st_fabric = [(''f'', fabric_f\<lparr>f_processor :=
                      [(''aws1-p02-f'', p02\<lparr>n_status := Some FAILED\<rparr>), (''zeta'', zeta_failed)]\<rparr>)],
      cfg_current_fabric = Some ''f''\<rparr>"

definition vpc_fine :: vpc_externals where
  "vpc_fine = \<lparr>vx_region_supported = True, vx_vpc_create = Vpc_created\<rparr>"

definition create_fails :: create_externals where
  "create_fails = \<lparr>cx_credentials_ok = True, cx_obj_create = Create_failed_early 1\<rparr>"

definition create_succeeds :: create_externals where
  "create_succeeds = \<lparr>cx_credentials_ok = True, cx_obj_create = Create_ok\<rparr>"

definition quiet_job :: "string \<Rightarrow> fabric_job" where
  "quiet_job name = \<lparr>j_fabric = name, j_fabric_in_batch = False, j_fabric_create = None,
     j_fabric_configure = Already_configured False, j_vpcs = [], j_vpc_create = Tool_ok,
     j_nodes = [], j_credentials = True, j_create_check = True, j_obj_create = Tool_ok,
     j_orch_config = [], j_docker_credentials = True, j_orchestrator_configure = Tool_ok,
     j_processor_actions = no_actions, j_processor_results = (\<lambda>act. Tool_ok),
     j_workload_actions = no_actions, j_workload_results = (\<lambda>act. Tool_ok)\<rparr>"


text \<open>
  A batch of two fabrics: the node creation of the first fails, the second creates a node
  and starts a workload, which fails.
\<close>

definition nodes_fail_then_start_fails :: "fabric_job list" where
  "nodes_fail_then_start_fails =
     [(quiet_job ''a'')\<lparr>j_nodes := [''aws1-p01-a''], j_obj_create := Tool_failed 2\<rparr>,
      (quiet_job ''b'')\<lparr>j_nodes := [''aws1-w01-b''],
         j_workload_actions := \<lparr>config = [''aws1-w01-b''], start = [''aws1-w01-b''], stop = []\<rparr>,
         j_workload_results := (\<lambda>act. if act = Start then Tool_failed 3 else Tool_ok)\<rparr>]"

text \<open>
  A state with one node batch of workloads: its member is to be started, and the workload
  of the fabric has only been created so far.
\<close>

definition member_w01 :: nb_node where
  "member_w01 = \<lparr>nb_kind = WORKLOAD, nb_fabric = ''f'', nb_name = ''aws1-w01-f'',
                  nb_vpc = ''aws1-vpc-f'', nb_config = [], nb_state = STARTED\<rparr>"

definition batch_nb :: batch_obj where
  "batch_nb = \<lparr>b_state = Some CREATED, b_workload = Some [(''aws1-w01-f'', member_w01)],
               b_processor = None\<rparr>"

definition state_nb :: state where
  "state_nb = \<lparr>st_batch = [(''nb'', batch_nb)], st_fabric = [(''f'', fabric_f)],
               cfg_current_fabric = Some ''f''\<rparr>"

text \<open>A node batch of two workloads for the VPC of the example fabric, and one of ten.\<close>

definition workload_template :: nodebatch_template where
  "workload_template = \<lparr>t_kind = ''Workload'', t_vpc = ''aws1-vpc-f'', t_config = [],
                         t_state = CREATED\<rparr>"



definition ten_processors :: nodebatch_spec where
  "ten_processors = \<lparr>nbs_name = ''ten'',
                      nbs_template = [workload_template\<lparr>t_kind := ''Processor''\<rparr>],
                      nbs_instance_count = 10\<rparr>"

text \<open>
  Batches of orchestrators for the fabric \<open>f\<close>: two controllers; one controller that is
  already there; a controller and a telemetry node that both declare the role manager.
\<close>

definition c_one :: node_spec where
  "c_one = \<lparr>ns_name = ''c-one'', ns_fabric = ''f'', ns_vpc = ''aws1-vpc-f'',
            ns_type = ''controller'', ns_role = ''manager'', ns_state = CONFIGURED\<rparr>"


definition t_one :: node_spec where
  "t_one = c_one\<lparr>ns_name := ''t-one'', ns_type := ''telemetry''\<rparr>"

definition controller_created :: node_obj where
  "controller_created = p01\<lparr>n_type := Some ''controller''\<rparr>"




definition state_with_c_one :: state where
  "state_with_c_one =
     \<lparr>st_batch = [],
      st_fabric = [(''f'', fabric_f\<lparr>f_orchestrator := [(''c-one'', controller_created)]\<rparr>)],
      cfg_current_fabric = Some ''f''\<rparr>"


text \<open>Ansible answers that let a configuration through.\<close>

definition configure_fine :: configure_externals where
  "configure_fine = \<lparr>ce_swarm_inventory = True, ce_swarm_playbook = Tool_ok,
                      ce_inventory = True, ce_playbook = Tool_ok\<rparr>"

section \<open>The planner against the table\<close>

lemma decision_table_any_status_rows:
  "decision_table_any_status =
    [(CREATED, Any_status, CONFIGURED, Any_drift, [Config]),
     (CREATED, Any_status, STARTED, Any_drift, [Config, Start]),
     (CREATED, Any_status, STOPPED, Any_drift, [Config, Stop]),
     (CONFIGURED, Only FAILED, CONFIGURED, Any_drift, [Config]),
     (CONFIGURED, Only SUCCESS, CONFIGURED, Drift True, [Config]),
     (CONFIGURED, Only SUCCESS, CONFIGURED, Drift False, []),
     (CONFIGURED, Any_status, STARTED, Drift_or_failed, [Config, Start]),
     (CONFIGURED, Only SUCCESS, STARTED, Drift False, [Start]),
     (CONFIGURED, Any_status, STOPPED, Drift_or_failed, [Config, Stop]),
     (CONFIGURED, Only SUCCESS, STOPPED, Drift False, [Stop]),
     (STARTED, Only FAILED, STARTED, Any_drift, [Start]),
     (STARTED, Any_status, STARTED, Drift True, [Config, Start]),
     (STARTED, Any_status, STOPPED, Drift True, [Config, Stop]),
     (STARTED, Any_status, STOPPED, Drift False, [Stop]),
     (STOPPED, Only FAILED, STOPPED, Any_drift, [Stop]),
     (STOPPED, Any_status, STOPPED, Drift True, [Config, Stop]),
     (STOPPED, Any_status, STARTED, Drift True, [Config, Start]),
     (STOPPED, Any_status, STARTED, Drift False, [Start])]"
  by (simp add: decision_table_any_status_def decision_table_def relax_status_def)

lemmas plan_defs = plan_def planned_def set_action_list_def no_actions_def add_config_def
  add_start_def add_stop_def role_bearing_def

lemma plan_changed_table:
  assumes "role_bearing entity_role" and "batch_entity_conf \<noteq> state_entity_conf"
  shows "plan cs st tgt entity_role batch_entity_conf state_entity_conf
           = table_lookup decision_table_any_status cs st tgt True"
  unfolding decision_table_any_status_rows using assms
  by (cases cs; cases st; cases tgt; simp add: plan_defs row_matches_def row_actions_def)

lemma plan_unchanged_table:
  assumes "role_bearing entity_role"
  shows "plan cs st tgt entity_role conf conf = table_lookup decision_table_any_status cs st tgt False"
  unfolding decision_table_any_status_rows using assms
  by (cases cs; cases st; cases tgt; simp add: plan_defs row_matches_def row_actions_def)

text \<open>
  C1 (as amended). For a processor or a workload, every current state, status, target state
  and pair of configurations, the planner returns the entry of the section 4.2 table read
  top down (the first matching row wins, no matching row is a no-op), where the two rows for
  an unchanged configuration between started and stopped apply to either status. For a
  workload in (started, failed) with target started the plan is start alone, whether or
  not the declared configuration differs from the applied one.
\<close>

theorem plan_follows_table:
  assumes "entity_role = PROCESSOR \<or> entity_role = WORKLOAD"
  shows "plan cs st tgt entity_role batch_entity_conf state_entity_conf
           = table_lookup decision_table_any_status cs st tgt (batch_entity_conf \<noteq> state_entity_conf)
         \<and> plan STARTED FAILED STARTED WORKLOAD batch_entity_conf state_entity_conf = [Start]"
proof -
  from assms have rb: "role_bearing entity_role"
    by (auto simp: role_bearing_def)
  have first: "plan cs st tgt entity_role batch_entity_conf state_entity_conf
           = table_lookup decision_table_any_status cs st tgt (batch_entity_conf \<noteq> state_entity_conf)"
  proof (cases "batch_entity_conf = state_entity_conf")
    case True
    then show ?thesis using plan_unchanged_table [OF rb] by simp
  next
    case False
    then show ?thesis using plan_changed_table [OF rb False] by simp
  qed
  have second: "plan STARTED FAILED STARTED WORKLOAD batch_entity_conf state_entity_conf = [Start]"
    by (simp add: plan_defs)
  from first second show ?thesis by simp
qed

theorem plan_follows_table_witness:
  "plan CONFIGURED SUCCESS STARTED PROCESSOR ''a'' ''b'' = [Config, Start]
   \<and> plan STARTED FAILED STOPPED WORKLOAD ''a'' ''a'' = [Stop]
   \<and> plan STARTED FAILED STARTED WORKLOAD ''a'' ''b'' = [Start]"
proof -
  have a: "plan CONFIGURED SUCCESS STARTED PROCESSOR ''a'' ''b''
             = table_lookup decision_table_any_status CONFIGURED SUCCESS STARTED (''a'' \<noteq> ''b'')"
    using plan_follows_table [of PROCESSOR CONFIGURED SUCCESS STARTED "''a''" "''b''"] by simp
  have b: "plan STARTED FAILED STOPPED WORKLOAD ''a'' ''a''
             = table_lookup decision_table_any_status STARTED FAILED STOPPED (''a'' \<noteq> ''a'')"
    using plan_follows_table [of WORKLOAD STARTED FAILED STOPPED "''a''" "''a''"] by simp
  have c: "plan STARTED FAILED STARTED WORKLOAD ''a'' ''b'' = [Start]"
    using plan_follows_table [of WORKLOAD STARTED FAILED STARTED "''a''" "''b''"] by blast
  from a b c show ?thesis
    by (simp add: decision_table_any_status_rows row_matches_def row_actions_def)
qed

text \<open>
  The claim as stated fails: with a changed configuration the workload in (started, failed)
  is only started again, and the table as printed has no row for a failed node that goes
  from started to stopped with an unchanged configuration, where the code plans a stop.
\<close>

theorem plan_started_failed_counterexample:
  "plan STARTED FAILED STARTED WORKLOAD ''new'' ''old'' \<noteq> [Config, Start]
   \<and> plan STARTED FAILED STOPPED WORKLOAD ''old'' ''old''
       \<noteq> table_lookup decision_table STARTED FAILED STOPPED False"
  by (simp add: plan_defs decision_table_def row_matches_def row_actions_def)


section \<open>The guard on the last processor of a VPC\<close>

text \<open>
  C7. When the processor named on the command line (after normalisation) is the only
  processor of its VPC in the current fabric and a workload of that VPC exists, then
  \<open>delete_processor\<close> ends with \<open>sys.exit(1)\<close>, has called no collaborator (no
  credentials lookup, no Terraform run) and leaves the state as it was, with or without
  \<open>--dry-run\<close> and whatever the collaborators would have answered.
\<close>

theorem delete_last_processor_rejected:
  assumes "cfg_current_fabric st = Some fabric_name"
    and "map_of (st_fabric st) fabric_name = Some fab"
    and "map_of (f_processor fab) (normalise_string processor_name) = Some obj"
    and "length (filter (\<lambda>x. n_vpc (snd x) = n_vpc obj) (f_processor fab)) = 1"
    and "filter (\<lambda>x. n_vpc (snd x) = n_vpc obj) (f_workload fab) \<noteq> []"
  shows "delete_processor st processor_name dry_run ext
           = \<lparr>ending = Exit 1, new_state = st, calls = []\<rparr>"
proof (cases "falsy (get_current_fabric st)")
  case True
  then show ?thesis by (simp add: delete_processor_def)
next
  case False
  then have cur: "get_current_fabric st = Some fabric_name"
    using assms(1,2) by (auto simp: falsy_def get_current_fabric_def split: if_splits)
  have eq: "(\<lambda>x. n_vpc obj = n_vpc (snd x)) = (\<lambda>x. n_vpc (snd x) = n_vpc obj)"
    by auto
  show ?thesis using False cur assms(2-5)
    by (simp add: delete_processor_def get_fabric_def Let_def eq)
qed

theorem delete_last_processor_rejected_witness:
  "delete_processor state_f ''AWS1-p01-f'' False all_fine
     = \<lparr>ending = Exit 1, new_state = state_f, calls = []\<rparr>"
  using delete_last_processor_rejected
          [of state_f "''f''" fabric_f "''AWS1-p01-f''" p01 False all_fine]
  by (simp add: state_f_def fabric_f_def p01_def normalise_string_def normalise_char_def)

section \<open>The current fabric\<close>



section \<open>The index allocator\<close>

text \<open>
  C3. The allocation of \<open>create_processor\<close> (the same lines stand in \<open>create_workload\<close>
  and \<open>create_orchestrator\<close>) tests the object that is last in the order of the keys for
  (created, failed), and then takes the largest index of the scope and the name derived
  from it, not the index and the name of the object it has tested. In the fabric below
  the last processor, \<open>zeta\<close> with index 1, is in (created, failed), and the largest
  index, 2, belongs to \<open>aws1-p02-f\<close>, which was created with success: the command
  announces a failed \<open>aws1-p02-f\<close>, hands that name to \<open>obj_create\<close> and writes a new
  object over the successful one; when the creation fails, the processor that was fine is
  left in (created, failed), and \<open>zeta\<close> is as it was.
\<close>

theorem retry_overwrites_successful_processor:
  "map_of (f_processor (the (map_of (st_fabric state_zeta) ''f''))) ''aws1-p02-f'' = Some p02
   \<and> check_object_state_status p02 CREATED SUCCESS
   \<and> allocate_node (f_processor (the (map_of (st_fabric state_zeta) ''f''))) ''aws1-vpc-f'' ''p'' ''f''
       = Inr \<lparr>a_index = 2, a_name = ''aws1-p02-f'', a_dns_enabled = ''true''\<rparr>
   \<and> c_calls (create_processor state_zeta ''aws1-vpc-f'' create_succeeds)
       = [Get_credentials, Obj_create [''aws1-p02-f''], Dump_state, Generate_ssh_config]
   \<and> create_processor state_zeta ''aws1-vpc-f'' create_fails
       = \<lparr>c_ending = Exit 1, c_state = state_zeta_overwritten,
          c_calls = [Get_credentials, Obj_create [''aws1-p02-f''], Dump_state]\<rparr>"
  by code_simp

text \<open>The same lines in \<open>create_workload\<close>, on the same objects as workloads.\<close>

lemma retry_overwrites_successful_workload:
  "c_calls (create_workload
      (state_zeta\<lparr>st_fabric := [(''f'', fabric_f\<lparr>f_workload :=
           [(''aws1-w02-f'', p02), (''zeta'', zeta_failed)]\<rparr>)]\<rparr>) ''aws1-vpc-f'' create_succeeds)
     = [Get_credentials, Obj_create [''aws1-w02-f''], Dump_state, Generate_ssh_config]"
  by code_simp

text \<open>
  When the failed object is the only one of the scope and has a name of its own, the
  derived name is not in the state, and the read of its DNS flag raises \<open>KeyError\<close>.
\<close>

lemma retry_of_named_object_raises:
  "create_processor
     (state_zeta\<lparr>st_fabric := [(''f'', fabric_f\<lparr>f_processor := [(''zeta'', zeta_failed)]\<rparr>)]\<rparr>)
     ''aws1-vpc-f'' create_succeeds
   = \<lparr>c_ending = Raised KeyError,
      c_state = state_zeta\<lparr>st_fabric := [(''f'', fabric_f\<lparr>f_processor := [(''zeta'', zeta_failed)]\<rparr>)]\<rparr>,
      c_calls = []\<rparr>"
  by code_simp

text \<open>
  A failed attempt that is not last in the order of the keys is not retried: with the
  failed \<open>aws1-p03-f\<close> before \<open>zeta\<close>, the next index is 4.
\<close>

lemma failed_attempt_not_last:
  "allocate_node
     [(''aws1-p01-f'', p01), (''aws1-p03-f'', p01\<lparr>n_index := 3, n_status := Some FAILED\<rparr>),
      (''zeta'', p02)] ''aws1-vpc-f'' ''p'' ''f''
   = Inr \<lparr>a_index = 4, a_name = ''aws1-p04-f'', a_dns_enabled = ''false''\<rparr>"
  by code_simp

text \<open>
  \<open>create_vpc\<close> has no rule for a VPC in (created, failed): the index is the largest
  index of the cloud plus 1, whatever the state of the VPCs.
\<close>

lemma create_vpc_after_failed_vpc:
  "create_vpc (state_f\<lparr>st_fabric := [(''f'', fabric_f\<lparr>f_vpc := [(''aws1-vpc-f'', vpc1_failed)]\<rparr>)]\<rparr>)
     ''aws'' ''us-east-1'' True vpc_fine
   = \<lparr>c_ending = Return_True,
      c_state = state_f\<lparr>st_fabric := [(''f'', fabric_f\<lparr>f_vpc := [(''aws1-vpc-f'', vpc1_failed)]\<rparr>)]\<rparr>,
      c_calls = []\<rparr>
   \<and> allocate_vpc_index [(''aws1-vpc-f'', vpc1_failed)] ''aws'' = 2"
  by code_simp

section \<open>Failures in a batch\<close>






subsection \<open>A failure clears the flag\<close>








subsection \<open>What a failure skips\<close>













text \<open>
  A batch of one fabric whose node creation fails never gets to the Ansible zone: the
  command ends with \<open>UnboundLocalError\<close> and not with \<open>sys.exit(1)\<close>.
\<close>

lemma no_fabric_in_ansible_zone:
  "create_batch [(quiet_job ''a'')\<lparr>j_nodes := [''aws1-p01-a''], j_obj_create := Tool_failed 2\<rparr>] =
     ([Credentials ''a'' True, Nodes_create_check ''a'' True,
       Nodes_create ''a'' [''aws1-p01-a''] (Tool_failed 2)], Raised UnboundLocalError)"
  by (simp add: create_batch_def quiet_job_def process_fabric_def
        fabric_block_def vpc_block_def node_block_def ok_def Let_def)

section \<open>The check for finished node batches\<close>

lemma check_loop_batch:
  "nodebatch_check_loop todo st targets tgt kind = Inr (st', targets') \<Longrightarrow>
   distinct (map fst (st_batch st)) \<Longrightarrow>
   map_of (st_batch st') name =
     (if name \<in> set todo
         \<and> (\<exists>b. map_of (st_batch st) name = Some b \<and> b_state b = Some tgt
                  \<and> nodebatch_curr_type b = kind)
      then None else map_of (st_batch st) name)"
proof (induction todo arbitrary: st targets)
  case Nil
  then show ?case by simp
next
  case (Cons nb rest)
  from Cons.prems(1) obtain b where b: "map_of (st_batch st) nb = Some b"
    by (auto simp: get_nodebatch_def split: option.splits)
  show ?case
  proof (cases "b_state b = Some tgt \<and> nodebatch_curr_type b = kind")
    case True
    with Cons.prems b
    have rec: "nodebatch_check_loop rest (delete_nodebatch st nb) (remove1 nb targets) tgt kind
                 = Inr (st', targets')"
      by (simp add: get_nodebatch_def)
    have d: "distinct (map fst (st_batch (delete_nodebatch st nb)))"
      using Cons.prems(2) by (simp add: delete_nodebatch_def distinct_delete)
    have ih: "map_of (st_batch st') name =
     (if name \<in> set rest
         \<and> (\<exists>b. map_of (st_batch (delete_nodebatch st nb)) name = Some b
                  \<and> b_state b = Some tgt \<and> nodebatch_curr_type b = kind)
      then None else map_of (st_batch (delete_nodebatch st nb)) name)"
      using Cons.IH [OF rec d] .
    show ?thesis using ih b True
      by (auto simp: delete_nodebatch_def delete_conv')
  next
    case False
    with Cons.prems b
    have rec: "nodebatch_check_loop rest st targets tgt kind = Inr (st', targets')"
      by (auto simp: get_nodebatch_def)
    show ?thesis using Cons.IH [OF rec Cons.prems(2)] b False by auto
  qed
qed

lemma check_loop_fabric:
  "nodebatch_check_loop todo st targets tgt kind = Inr (st', targets') \<Longrightarrow>
     st_fabric st' = st_fabric st"
proof (induction todo arbitrary: st targets)
  case Nil
  then show ?case by simp
next
  case (Cons nb rest)
  from Cons.prems obtain b where b: "get_nodebatch st nb = Some b"
    by (auto split: option.splits)
  show ?case
  proof (cases "b_state b = Some tgt \<and> nodebatch_curr_type b = kind")
    case True
    with Cons.prems b
    have "nodebatch_check_loop rest (delete_nodebatch st nb) (remove1 nb targets) tgt kind
            = Inr (st', targets')"
      by simp
    from Cons.IH [OF this] show ?thesis by (simp add: delete_nodebatch_def)
  next
    case False
    with Cons.prems b
    have "nodebatch_check_loop rest st targets tgt kind = Inr (st', targets')"
      by auto
    from Cons.IH [OF this] show ?thesis .
  qed
qed

lemma check_loop_total:
  "distinct todo \<Longrightarrow> set todo \<subseteq> fst ` set (st_batch st) \<Longrightarrow>
     \<exists>r. nodebatch_check_loop todo st targets tgt kind = Inr r"
proof (induction todo arbitrary: st targets)
  case Nil
  then show ?case by simp
next
  case (Cons nb rest)
  from Cons.prems(2) obtain b where b: "map_of (st_batch st) nb = Some b"
    by (metis list.set_intros(1) subsetD weak_map_of_SomeI map_of_eq_None_iff not_Some_eq)
  have sub: "set rest \<subseteq> fst ` set (st_batch (delete_nodebatch st nb))"
  proof
    fix x assume x: "x \<in> set rest"
    then have "x \<noteq> nb" using Cons.prems(1) by auto
    moreover have "x \<in> fst ` set (st_batch st)" using x Cons.prems(2) by auto
    ultimately show "x \<in> fst ` set (st_batch (delete_nodebatch st nb))"
      by (auto simp: delete_nodebatch_def AList.delete_eq)
  qed
  show ?case
  proof (cases "b_state b = Some tgt \<and> nodebatch_curr_type b = kind")
    case True
    then show ?thesis
      using Cons.IH [of "delete_nodebatch st nb" "remove1 nb targets"] Cons.prems sub b
      by (simp add: get_nodebatch_def)
  next
    case False
    then show ?thesis using Cons.IH [of st targets] Cons.prems b
      by (auto simp: get_nodebatch_def)
  qed
qed

subsection \<open>Where create_batch runs the check\<close>

lemma checked_after_append:
  "checked_after xs \<Longrightarrow> checked_after ys \<Longrightarrow> checked_after (xs @ ys)"
  by (induction xs) (auto intro: prefix_prefix)

lemma node_steps_checked: "checked_after (fst (node_steps f k acts res l))"
  by (induction l) (auto simp: Let_def split: prod.splits)

lemma orchestrator_step_checked: "checked_after (fst (orchestrator_step j))"
  by (simp add: orchestrator_step_def)

lemma ansible_zone_checked: "checked_after (fst (ansible_zone j))"
  using node_steps_checked [of "j_fabric j" PROCESSOR "j_processor_actions j"
          "j_processor_results j" "[Config, Start, Stop]"]
    node_steps_checked [of "j_fabric j" WORKLOAD "j_workload_actions j"
          "j_workload_results j" "[Config, Start, Stop]"]
    orchestrator_step_checked [of j]
  by (auto simp: ansible_zone_def split: prod.splits intro!: checked_after_append)

lemma node_block_checked: "checked_after (fst (node_block j))"
  using ansible_zone_checked [of j]
  by (cases "j_obj_create j") (auto simp: node_block_def Let_def ok_def split: prod.splits)

lemma vpc_block_checked: "checked_after (fst (vpc_block j))"
  using node_block_checked [of j]
  by (auto simp: vpc_block_def split: prod.splits)

lemma fabric_block_checked: "checked_after (fst (fabric_block j))"
  by (auto simp: fabric_block_def Let_def split: option.splits fabric_configure.splits)

lemma process_fabric_checked: "checked_after (fst (process_fabric j))"
  using vpc_block_checked [of j] fabric_block_checked [of j]
  by (auto simp: process_fabric_def split: prod.splits bool.splits intro!: checked_after_append)

lemma batch_loop_checked: "checked_after (fst (batch_loop jobs flag bound))"
proof (induction jobs arbitrary: flag bound)
  case Nil
  then show ?case by simp
next
  case (Cons j js)
  obtain events v where pf: "process_fabric j = (events, v)" by (cases "process_fabric j")
  have ce: "checked_after events" using process_fabric_checked [of j] pf by simp
  show ?case
  proof (cases v)
    case (Sys_exit code)
    then show ?thesis using pf ce by simp
  next
    case Continue
    obtain later e where bl: "batch_loop js False bound = (later, e)"
      by (cases "batch_loop js False bound")
    have "checked_after later" using Cons.IH [of False bound] bl by simp
    then show ?thesis using pf Continue bl ce by (simp add: checked_after_append)
  next
    case (Next_fabric s)
    obtain later e where bl: "batch_loop js (flag \<and> s) True = (later, e)"
      by (cases "batch_loop js (flag \<and> s) True")
    have "checked_after later" using Cons.IH [of "flag \<and> s" True] bl by simp
    then show ?thesis using pf Next_fabric bl ce by (simp add: checked_after_append)
  qed
qed

text \<open>
  C2 (as amended). For a state whose batch map has the target names (each once),
  \<open>nodebatch_check_success\<close> returns, leaves the fabrics as they are and deletes a batch
  exactly when it is a target, the state recorded on the batch entry itself equals the
  checked state and the kind of the batch (processor if it has a processor map, workload
  otherwise) equals the checked kind; the states of the member nodes are not read. In
  \<open>create_batch\<close> the check follows at once every configure, start and stop step of
  processors and workloads, and every node creation that did not fail.
\<close>

theorem nodebatch_deleted_on_own_state:
  assumes "distinct (map fst (st_batch st))"
    and "distinct nodebatch_targets"
    and "set nodebatch_targets \<subseteq> fst ` set (st_batch st)"
  shows "(\<exists>st' targets'.
            nodebatch_check_success st nodebatch_targets target_obj_state nodebatch_type
              = Inr (st', targets')
            \<and> st_fabric st' = st_fabric st
            \<and> (\<forall>name. map_of (st_batch st') name =
                  (if name \<in> set nodebatch_targets
                      \<and> (\<exists>b. map_of (st_batch st) name = Some b
                               \<and> b_state b = Some target_obj_state
                               \<and> nodebatch_curr_type b = nodebatch_type)
                   then None else map_of (st_batch st) name)))
         \<and> checked_after (fst (create_batch jobs))"
proof -
  obtain st' targets' where r:
    "nodebatch_check_loop nodebatch_targets st nodebatch_targets target_obj_state nodebatch_type
       = Inr (st', targets')"
    using check_loop_total [OF assms(2,3)] by fastforce
  have f: "st_fabric st' = st_fabric st"
    using check_loop_fabric [OF r] .
  have b: "\<forall>name. map_of (st_batch st') name =
                  (if name \<in> set nodebatch_targets
                      \<and> (\<exists>b. map_of (st_batch st) name = Some b
                               \<and> b_state b = Some target_obj_state
                               \<and> nodebatch_curr_type b = nodebatch_type)
                   then None else map_of (st_batch st) name)"
    using check_loop_batch [OF r assms(1)] by blast
  have c: "checked_after (fst (create_batch jobs))"
    unfolding create_batch_def by (rule batch_loop_checked)
  from r f b c show ?thesis
    unfolding nodebatch_check_success_def by blast
qed

theorem nodebatch_deleted_on_own_state_witness:
  "nodebatch_check_success state_nb [''nb''] CREATED WORKLOAD = Inr (state_nb\<lparr>st_batch := []\<rparr>, [])
   \<and> nodebatch_check_success state_nb [''nb''] STARTED WORKLOAD = Inr (state_nb, [''nb''])
   \<and> checked_after (fst (create_batch nodes_fail_then_start_fails))"
proof -
  have d: "distinct (map fst (st_batch state_nb))" by (simp add: state_nb_def)
  have t: "distinct [''nb'']" by simp
  have s: "set [''nb''] \<subseteq> fst ` set (st_batch state_nb)" by (simp add: state_nb_def)
  have c: "checked_after (fst (create_batch nodes_fail_then_start_fails))"
    using nodebatch_deleted_on_own_state
            [OF d t s, of CREATED WORKLOAD nodes_fail_then_start_fails]
    by blast
  have a: "nodebatch_check_success state_nb [''nb''] CREATED WORKLOAD
             = Inr (state_nb\<lparr>st_batch := []\<rparr>, [])"
    by (simp add: nodebatch_check_success_def get_nodebatch_def delete_nodebatch_def
          state_nb_def batch_nb_def nodebatch_curr_type_def)
  have b: "nodebatch_check_success state_nb [''nb''] STARTED WORKLOAD = Inr (state_nb, [''nb''])"
    by (simp add: nodebatch_check_success_def get_nodebatch_def delete_nodebatch_def
          state_nb_def batch_nb_def nodebatch_curr_type_def)
  from a b c show ?thesis by simp
qed

text \<open>
  The claim as stated fails: the member of the batch is to be started and the workload is
  only created (the member has not reached its target), yet the check that follows the
  node creation deletes the batch; and no later check can, since the batch is gone.
\<close>

theorem nodebatch_deleted_early_counterexample:
  "\<not> all_members_reached_target state_nb batch_nb
   \<and> map_of (st_batch state_nb) ''nb'' = Some batch_nb
   \<and> nodebatch_check_success state_nb [''nb''] CREATED WORKLOAD
       = Inr (state_nb\<lparr>st_batch := []\<rparr>, [])"
  by (simp add: all_members_reached_target_def member_reached_target_def batch_nodes_def
        get_fabric_objects_def nodebatch_check_success_def get_nodebatch_def
        delete_nodebatch_def state_nb_def batch_nb_def member_w01_def fabric_f_def p01_def
        nodebatch_curr_type_def)

section \<open>The names of generated nodes\<close>

lemma str_nat_nonempty: "str_nat n \<noteq> []"
  by (subst str_nat.simps) simp

lemma str_digit: "0 \<le> i \<Longrightarrow> i < 10 \<Longrightarrow> length (str i) = 1"
  by (simp add: str_def str_nat.simps [of "nat i"])

lemma str_long: "10 \<le> i \<Longrightarrow> 2 \<le> length (str i)"
proof -
  assume "10 \<le> i"
  then have "\<not> nat i < 10" by simp
  then have "str_nat (nat i) = str_nat (nat i div 10) @ [digit_char (nat i mod 10)]"
    by (subst str_nat.simps) simp
  moreover have "1 \<le> length (str_nat (nat i div 10))"
    using str_nat_nonempty [of "nat i div 10"] by (cases "str_nat (nat i div 10)") simp_all
  ultimately show ?thesis using \<open>10 \<le> i\<close> by (simp add: str_def)
qed

lemma nodebatch_name_below_10:
  "0 \<le> i \<Longrightarrow> i < 10 \<Longrightarrow> nodebatch_node_name vpc c i f = node_name vpc c i f"
  using str_digit [of i]
  by (simp add: nodebatch_node_name_def node_name_def format_02d_def Let_def)

lemma nodebatch_name_from_10:
  "10 \<le> i \<Longrightarrow> nodebatch_node_name vpc c i f \<noteq> node_name vpc c i f"
proof
  assume i: "10 \<le> i" and eq: "nodebatch_node_name vpc c i f = node_name vpc c i f"
  have "format_02d i = str i" using str_long [OF i] by (simp add: format_02d_def Let_def)
  with eq have "length (''0'' @ str i) = length (str i)"
    by (simp add: nodebatch_node_name_def node_name_def)
  then show False by simp
qed

text \<open>
  C4. The commands build the node name with the format \<open>{:02d}\<close>; the node-batch
  expansion puts the character 0 in front of \<open>str(index)\<close> instead. The two agree for
  the indices 0 to 9 and differ from 10 on. For a batch of ten processors in a VPC that
  has one processor, the indices run from 2 to 11 and the last two names carry three
  digits, where the format gives \<open>aws1-p10-f\<close> and \<open>aws1-p11-f\<close>.
\<close>

theorem nodebatch_names_of_ten:
  "(case expand_nodebatch state_f ''f'' ten_processors of
      Inl e \<Rightarrow> Inl e
    | Inr x \<Rightarrow> Inr (map nb_name (x_generated x)))
   = Inr [''aws1-p02-f'', ''aws1-p03-f'', ''aws1-p04-f'', ''aws1-p05-f'', ''aws1-p06-f'',
          ''aws1-p07-f'', ''aws1-p08-f'', ''aws1-p09-f'', ''aws1-p010-f'', ''aws1-p011-f'']
   \<and> node_name ''aws1-vpc-f'' ''p'' 10 ''f'' = ''aws1-p10-f''
   \<and> node_name ''aws1-vpc-f'' ''p'' 11 ''f'' = ''aws1-p11-f''"
  by code_simp

section \<open>Resolving a node batch twice\<close>

lemma process_batch_node_batch:
  "st_batch (g_state (process_batch_node f k m g)) = st_batch (g_state g)"
  by (auto simp: process_batch_node_def Let_def put_fabric_def split: option.splits)

lemma fold_process_batch:
  "st_batch (g_state (fold (process_batch_node f k) ms g)) = st_batch (g_state g)"
  by (induction ms arbitrary: g) (simp_all add: process_batch_node_batch)







lemma add_batch_obj_keeps:
  "name \<in> fst ` set (st_batch s) \<Longrightarrow> name \<in> fst ` set (st_batch (add_batch_obj s bn k on n))"
  by (auto simp: add_batch_obj_def add_batch_def dom_update split: option.splits)

lemma fold_add_batch_obj_keeps:
  "name \<in> fst ` set (st_batch s) \<Longrightarrow>
     name \<in> fst ` set (st_batch (fold (\<lambda>n s. add_batch_obj s bn k (nb_name n) n) ns s))"
  by (induction ns arbitrary: s) (simp_all add: add_batch_obj_keeps)

lemma expand_generated_recorded:
  assumes "expand_nodebatch st f nb = Inr x" and "x_generated x \<noteq> []"
  shows "x_end x = Recorded \<and> check_nodebatch (x_state x) (nbs_name nb)"
proof -
  have k: "nbs_name nb \<in> fst ` set (st_batch (add_batch st (nbs_name nb) b))" for b
    by (simp add: add_batch_def dom_update)
  show ?thesis using assms fold_add_batch_obj_keeps [OF k]
    by (auto simp: expand_nodebatch_def Let_def check_nodebatch_def
             split: option.splits if_splits)
qed

lemma finish_checks_verdict: "finish_checks T targets gen = Inr r \<Longrightarrow> r_verdict r = Next_fabric True"
  by (auto simp: finish_checks_def split: sum.splits prod.splits)

text \<open>
  A first run that generates members and does not get through the node creation leaves
  the entry of the node batch in the state.
\<close>

lemma first_run_keeps_entry:
  assumes "resolve_nodebatch st f nb c res = Inr r" and "r_generated r \<noteq> []"
    and "r_verdict r \<noteq> Next_fabric True"
  shows "check_nodebatch (r_state r) (nbs_name nb)"
proof -
  from assms(1) obtain x ms where x: "expand_nodebatch st f nb = Inr x"
    and ms: "batch_members x (nbs_name nb) = Inr ms"
    by (auto simp: resolve_nodebatch_def split: sum.splits)
  let ?init = "\<lparr>g_state = x_state x, g_temp_nodes = [], g_index_list = [], g_targets = []\<rparr>"
  let ?g = "fold (process_batch_node f (x_kind x)) ms ?init"
  have gen: "r_generated r = x_generated x"
    using assms(1) x ms
    by (auto simp: resolve_nodebatch_def Let_def finish_checks_def
             split: sum.splits prod.splits option.splits if_splits)
  then have rec: "x_end x = Recorded" and ent: "check_nodebatch (x_state x) (nbs_name nb)"
    using expand_generated_recorded [OF x] assms(2) by simp_all
  have gb: "st_batch (g_state ?g) = st_batch (x_state x)"
    using fold_process_batch [of f "x_kind x" _ ?init] by simp
  have "st_batch (r_state r) = st_batch (x_state x)"
    using assms(1,3) x ms rec gb finish_checks_verdict
    by (auto simp: resolve_nodebatch_def Let_def put_fabric_def
             split: option.splits if_splits)
  then show ?thesis using ent by (simp add: check_nodebatch_def)
qed




section \<open>Orchestrators of one type in a batch\<close>


lemma orch_objs_put: "orch_objs (put_fabric st f fab) f = f_orchestrator fab"
  by (simp add: orch_objs_def put_fabric_def update_conv')

lemma orch_objs_Some:
  "map_of (st_fabric st) f = Some fab \<Longrightarrow> orch_objs st f = f_orchestrator fab"
  by (simp add: orch_objs_def)
















subsection \<open>The loop\<close>












subsection \<open>From the generation to the creation and the configuration\<close>







subsection \<open>The first entry of a type\<close>

















text \<open>
  An entry that names the successful orchestrator of its type itself is left out by the
  test of line 239 (\<open>node != x[0]\<close>); it is not created again, and it is configured.
\<close>

lemma existing_orchestrator_configured:
  "created_configured_warned
     (resolve_orchestrators state_with_c_one ''f'' [c_one] True (\<lambda>n. Create_ok))
     = Inr ([], [''c-one''], [Node_exists ''c-one''])"
  by code_simp

section \<open>The managers of a fabric\<close>

lemma at_most_one_iff:
  "at_most_one P objs \<longleftrightarrow> (\<forall>x\<in>set objs. \<forall>y\<in>set objs. P x \<and> P y \<longrightarrow> fst x = fst y)"
  by (auto simp: at_most_one_def list_all_iff)

lemma at_most_one_derived:
  assumes "at_most_one P objs"
    and "\<And>x. x \<in> set objs' \<Longrightarrow> P' x \<Longrightarrow> \<exists>y\<in>set objs. fst y = fst x \<and> P y"
  shows "at_most_one P' objs'"
  unfolding at_most_one_iff
proof (intro ballI impI)
  fix x y assume x: "x \<in> set objs'" and y: "y \<in> set objs'" and p: "P' x \<and> P' y"
  from assms(2) [OF x] p obtain x0 where x0: "x0 \<in> set objs" "fst x0 = fst x" "P x0" by blast
  from assms(2) [OF y] p obtain y0 where y0: "y0 \<in> set objs" "fst y0 = fst y" "P y0" by blast
  from assms(1) x0 y0 have "fst x0 = fst y0" unfolding at_most_one_iff by blast
  then show "fst x = fst y" using x0(2) y0(2) by simp
qed

lemma set_update_cases: "x \<in> set (AList.update k v l) \<Longrightarrow> x \<in> set l \<or> x = (k, v)"
  by (induction l) (auto split: if_splits)

lemma orch_objs_put_other:
  "f \<noteq> fabric_name \<Longrightarrow> orch_objs (put_fabric st fabric_name fab) f = orch_objs st f"
  by (simp add: orch_objs_def put_fabric_def update_conv')

lemma has_role_manager_is_manager: "has_role_manager x \<Longrightarrow> is_manager x"
  by (simp add: has_role_manager_def is_manager_def)

text \<open>Setting the state and the status leaves every role as it was.\<close>

lemma set_state_status_all_roles:
  assumes "set_state_status_all names s t objs = Inr objs'" and "x \<in> set objs'"
  shows "\<exists>y\<in>set objs. fst y = fst x \<and> n_role (snd y) = n_role (snd x)"
  using assms
proof (induction names arbitrary: objs)
  case Nil
  then show ?case by auto
next
  case (Cons k rest)
  from Cons.prems(1) obtain obj where obj: "map_of objs k = Some obj"
    and r: "set_state_status_all rest s t
              (AList.update k (obj\<lparr>n_state := Some s, n_status := Some t\<rparr>) objs) = Inr objs'"
    by (auto split: option.splits)
  from Cons.IH [OF r Cons.prems(2)] obtain y
    where y: "y \<in> set (AList.update k (obj\<lparr>n_state := Some s, n_status := Some t\<rparr>) objs)"
      "fst y = fst x" "n_role (snd y) = n_role (snd x)" by blast
  from set_update_cases [OF y(1)] show ?case
  proof
    assume "y \<in> set objs"
    then show ?thesis using y(2,3) by blast
  next
    assume e: "y = (k, obj\<lparr>n_state := Some s, n_status := Some t\<rparr>)"
    have "(k, obj) \<in> set objs" using obj by (rule map_of_SomeD)
    moreover have "fst (k, obj) = fst x" "n_role (snd (k, obj)) = n_role (snd x)"
      using y(2,3) e by simp_all
    ultimately show ?thesis by blast
  qed
qed

text \<open>
  Every object that the role loop leaves is an object it found, or stands for an object
  of the list with the same type, and is a manager only if that type is controller.
\<close>

lemma assign_roles_traced:
  assumes "assign_roles names objs found = Inr (objs', found')" and "x \<in> set objs'"
  shows "x \<in> set objs
         \<or> (\<exists>y\<in>set objs. fst y = fst x \<and> fst x \<in> set names \<and> n_type (snd y) = n_type (snd x)
               \<and> (n_role (snd x) = Some ''manager'' \<longrightarrow> n_type (snd x) = Some ''controller''))"
  using assms
proof (induction names arbitrary: objs found)
  case Nil
  then show ?case by auto
next
  case (Cons k rest)
  from Cons.prems(1) obtain obj where obj: "map_of objs k = Some obj"
    by (auto split: option.splits)
  define role where "role = (if n_type obj = Some ''controller'' then ''manager'' else ''worker'')"
  have role: "role = ''manager'' \<longrightarrow> n_type obj = Some ''controller''"
    by (simp add: role_def)
  obtain found1
    where r: "assign_roles rest (AList.update k (obj\<lparr>n_role := Some role\<rparr>) objs) found1
                = Inr (objs', found')"
    using Cons.prems(1) obj by (cases "n_type obj = Some ''controller''") (auto simp: role_def)
  let ?new = "(k, obj\<lparr>n_role := Some role\<rparr>)"
  have old: "(k, obj) \<in> set objs" using obj by (rule map_of_SomeD)
  have new: "\<exists>y\<in>set objs. fst y = fst ?new \<and> fst ?new \<in> set (k # rest)
                \<and> n_type (snd y) = n_type (snd ?new)
                \<and> (n_role (snd ?new) = Some ''manager'' \<longrightarrow> n_type (snd ?new) = Some ''controller'')"
    using old role by force
  from Cons.IH [OF r Cons.prems(2)] show ?case
  proof
    assume "x \<in> set (AList.update k (obj\<lparr>n_role := Some role\<rparr>) objs)"
    from set_update_cases [OF this] show ?thesis
    proof
      assume "x \<in> set objs" then show ?thesis by simp
    next
      assume "x = ?new" then show ?thesis using new by simp
    qed
  next
    assume "\<exists>y\<in>set (AList.update k (obj\<lparr>n_role := Some role\<rparr>) objs).
              fst y = fst x \<and> fst x \<in> set rest \<and> n_type (snd y) = n_type (snd x)
              \<and> (n_role (snd x) = Some ''manager'' \<longrightarrow> n_type (snd x) = Some ''controller'')"
    then obtain y where y: "y \<in> set (AList.update k (obj\<lparr>n_role := Some role\<rparr>) objs)"
      "fst y = fst x" "fst x \<in> set rest" "n_type (snd y) = n_type (snd x)"
      "n_role (snd x) = Some ''manager'' \<longrightarrow> n_type (snd x) = Some ''controller''" by blast
    from set_update_cases [OF y(1)] show ?thesis
    proof
      assume "y \<in> set objs"
      then show ?thesis using y(2,3,4,5) by auto
    next
      assume e: "y = ?new"
      have "fst (k, obj) = fst x" "n_type (snd (k, obj)) = n_type (snd x)"
        using y(2,4) e by simp_all
      then show ?thesis using old y(3,5) by (metis list.set_intros(2))
    qed
  qed
qed

lemma assign_roles_one_manager:
  assumes "assign_roles names objs False = Inr (objs', found')"
    and "filter is_manager objs = []"
    and "at_most_one (named_controller names) objs"
  shows "at_most_one has_role_manager objs'"
proof (rule at_most_one_derived [OF assms(3)])
  fix x assume x: "x \<in> set objs'" and m: "has_role_manager x"
  have none: "\<And>y. y \<in> set objs \<Longrightarrow> \<not> has_role_manager y"
    using assms(2) has_role_manager_is_manager by (auto simp: filter_empty_conv)
  from assign_roles_traced [OF assms(1) x] none [of x] m
  obtain y where "y \<in> set objs" "fst y = fst x" "fst x \<in> set names"
    "n_type (snd y) = n_type (snd x)" "n_type (snd x) = Some ''controller''"
    by (auto simp: has_role_manager_def)
  then show "\<exists>y\<in>set objs. fst y = fst x \<and> named_controller names y"
    by (auto simp: named_controller_def)
qed

lemma set_state_status_all_one_manager:
  assumes "set_state_status_all names s t objs = Inr objs'"
    and "at_most_one has_role_manager objs"
  shows "at_most_one has_role_manager objs'"
proof (rule at_most_one_derived [OF assms(2)])
  fix x assume "x \<in> set objs'" and "has_role_manager x"
  then show "\<exists>y\<in>set objs. fst y = fst x \<and> has_role_manager y"
    using set_state_status_all_roles [OF assms(1)] by (fastforce simp: has_role_manager_def)
qed

text \<open>The states that \<open>orchestrator_configure\<close> can leave.\<close>

lemma orchestrator_configure_cases:
  assumes "orchestrator_configure st fabric_name names s ext = Inr r"
  shows "cr_state r = st
         \<or> (\<exists>fab objs found.
               map_of (st_fabric st) fabric_name = Some fab
               \<and> (if filter is_manager (f_orchestrator fab) = []
                   then assign_roles names (f_orchestrator fab) False
                   else Inr (f_orchestrator fab, True)) = Inr (objs, found)
               \<and> (cr_state r = put_fabric st fabric_name (fab\<lparr>f_orchestrator := objs\<rparr>)
                  \<or> (\<exists>status done. set_state_status_all names s status objs = Inr done
                        \<and> cr_state r = put_fabric st fabric_name (fab\<lparr>f_orchestrator := done\<rparr>))))"
proof -
  from assms obtain fab where fab: "map_of (st_fabric st) fabric_name = Some fab"
    by (auto simp: orchestrator_configure_def split: option.splits)
  show ?thesis
  proof (cases "created_failed_in (f_orchestrator fab) names = Inr False")
    case False
    then have "cr_state r = st" using assms fab
      by (auto simp: orchestrator_configure_def split: sum.splits bool.splits)
    then show ?thesis by simp
  next
    case True
    let ?roles = "if filter is_manager (f_orchestrator fab) = []
                  then assign_roles names (f_orchestrator fab) False
                  else Inr (f_orchestrator fab, True)"
    from assms fab True obtain objs found where roles: "?roles = Inr (objs, found)"
      by (cases ?roles) (auto simp: orchestrator_configure_def)
    define left where "left = (\<lambda>state.
          state = put_fabric st fabric_name (fab\<lparr>f_orchestrator := objs\<rparr>)
          \<or> (\<exists>status done. set_state_status_all names s status objs = Inr done
                \<and> state = put_fabric st fabric_name (fab\<lparr>f_orchestrator := done\<rparr>)))"
    have q1: "left (put_fabric st fabric_name (fab\<lparr>f_orchestrator := objs\<rparr>))"
      by (simp add: left_def)
    have q2: "\<And>status d. set_state_status_all names s status objs = Inr d \<Longrightarrow>
                left (put_fabric st fabric_name (fab\<lparr>f_orchestrator := d\<rparr>))"
      unfolding left_def by blast
    have "left (cr_state r)"
      using assms fab True roles q1
      by (auto simp: orchestrator_configure_def Let_def intro: q2
               split: sum.splits list.splits tool_result.splits if_splits)
    then show ?thesis using fab roles unfolding left_def by blast
  qed
qed

lemma orchestrator_configure_one_manager:
  assumes run: "orchestrator_configure st fabric_name names s ext = Inr r"
    and one: "at_most_one has_role_manager (orch_objs st f)"
    and ctl: "at_most_one (named_controller names) (orch_objs st fabric_name)"
  shows "at_most_one has_role_manager (orch_objs (cr_state r) f)"
proof (cases "f = fabric_name")
  case False
  then show ?thesis
    using orchestrator_configure_cases [OF run] one by (auto simp: orch_objs_put_other)
next
  case True
  from orchestrator_configure_cases [OF run] show ?thesis
  proof
    assume "cr_state r = st" then show ?thesis using one by simp
  next
    assume "\<exists>fab objs found.
               map_of (st_fabric st) fabric_name = Some fab
               \<and> (if filter is_manager (f_orchestrator fab) = []
                   then assign_roles names (f_orchestrator fab) False
                   else Inr (f_orchestrator fab, True)) = Inr (objs, found)
               \<and> (cr_state r = put_fabric st fabric_name (fab\<lparr>f_orchestrator := objs\<rparr>)
                  \<or> (\<exists>status done. set_state_status_all names s status objs = Inr done
                        \<and> cr_state r = put_fabric st fabric_name (fab\<lparr>f_orchestrator := done\<rparr>)))"
    then obtain fab objs found where fab: "map_of (st_fabric st) fabric_name = Some fab"
      and roles: "(if filter is_manager (f_orchestrator fab) = []
                   then assign_roles names (f_orchestrator fab) False
                   else Inr (f_orchestrator fab, True)) = Inr (objs, found)"
      and fin: "cr_state r = put_fabric st fabric_name (fab\<lparr>f_orchestrator := objs\<rparr>)
                \<or> (\<exists>status done. set_state_status_all names s status objs = Inr done
                      \<and> cr_state r = put_fabric st fabric_name (fab\<lparr>f_orchestrator := done\<rparr>))"
      by blast
    have before: "orch_objs st fabric_name = f_orchestrator fab"
      using fab by (rule orch_objs_Some)
    have o: "at_most_one has_role_manager objs"
    proof (cases "filter is_manager (f_orchestrator fab) = []")
      case True
      then have "assign_roles names (f_orchestrator fab) False = Inr (objs, found)"
        using roles by simp
      from assign_roles_one_manager [OF this True] ctl show ?thesis by (simp add: before)
    next
      case False
      then have "objs = f_orchestrator fab" using roles by simp
      then show ?thesis using one \<open>f = fabric_name\<close> by (simp add: before)
    qed
    from fin show ?thesis
    proof
      assume "cr_state r = put_fabric st fabric_name (fab\<lparr>f_orchestrator := objs\<rparr>)"
      then show ?thesis using o \<open>f = fabric_name\<close> by (simp add: orch_objs_put)
    next
      assume "\<exists>status done. set_state_status_all names s status objs = Inr done
                \<and> cr_state r = put_fabric st fabric_name (fab\<lparr>f_orchestrator := done\<rparr>)"
      then obtain status d where d: "set_state_status_all names s status objs = Inr d"
        and c: "cr_state r = put_fabric st fabric_name (fab\<lparr>f_orchestrator := d\<rparr>)" by blast
      from set_state_status_all_one_manager [OF d o] show ?thesis
        using c \<open>f = fabric_name\<close> by (simp add: orch_objs_put)
    qed
  qed
qed

text \<open>\<open>create_orchestrator\<close> writes at most one object, and that object has no role.\<close>

lemma obj_create_effect_role: "n_role (obj_create_effect res obj) = n_role obj"
  by (cases res) (simp_all add: dns_on_def)

lemma create_orchestrator_cases:
  "c_state (create_orchestrator st vpc orchestrator_type ext) = st
   \<or> (\<exists>fabric_name fab name obj.
         map_of (st_fabric st) fabric_name = Some fab \<and> n_role obj = None
         \<and> c_state (create_orchestrator st vpc orchestrator_type ext)
             = put_fabric st fabric_name
                 (fab\<lparr>f_orchestrator := AList.update name obj (f_orchestrator fab)\<rparr>))"
proof (cases "falsy (get_current_fabric st)")
  case True
  then show ?thesis by (simp add: create_orchestrator_def)
next
  case False
  then obtain fabric_name where cur: "get_current_fabric st = Some fabric_name"
    by (auto simp: falsy_def)
  then obtain fab where fab: "map_of (st_fabric st) fabric_name = Some fab"
    by (auto simp: get_current_fabric_def split: option.splits if_splits)
  have role: "\<And>res v i d. n_role (obj_create_effect res
                 (get_clean_node\<lparr>n_vpc := v, n_index := i, n_type := Some orchestrator_type,
                                  n_dns_enabled := d\<rparr>)) = None"
    by (simp add: obj_create_effect_role get_clean_node_def)
  show ?thesis
  proof (cases "c_state (create_orchestrator st vpc orchestrator_type ext) = st")
    case True
    then show ?thesis by simp
  next
    case False
    let ?new = "\<lambda>i d. obj_create_effect (cx_obj_create ext)
                  (get_clean_node\<lparr>n_vpc := vpc, n_index := i,
                                   n_type := Some orchestrator_type, n_dns_enabled := d\<rparr>)"
    from False cur fab have "\<exists>name i d. c_state (create_orchestrator st vpc orchestrator_type ext)
                  = put_fabric st fabric_name
                      (fab\<lparr>f_orchestrator := AList.update name (?new i d) (f_orchestrator fab)\<rparr>)"
      by (auto simp: create_orchestrator_def Let_def get_fabric_def add_fabric_obj_def falsy_def
               split: sum.splits option.splits if_splits)
    then obtain name i d
      where c: "c_state (create_orchestrator st vpc orchestrator_type ext)
                  = put_fabric st fabric_name
                      (fab\<lparr>f_orchestrator := AList.update name (?new i d) (f_orchestrator fab)\<rparr>)"
      by blast
    have "n_role (?new i d) = None" by (rule role)
    with fab c have "\<exists>fabric_name fab name obj.
         map_of (st_fabric st) fabric_name = Some fab \<and> n_role obj = None
         \<and> c_state (create_orchestrator st vpc orchestrator_type ext)
             = put_fabric st fabric_name
                 (fab\<lparr>f_orchestrator := AList.update name obj (f_orchestrator fab)\<rparr>)"
      by (intro exI [of _ fabric_name] exI [of _ fab] exI [of _ name] exI [of _ "?new i d"])
         simp
    then show ?thesis by (rule disjI2)
  qed
qed

lemma create_orchestrator_one_manager:
  assumes "at_most_one has_role_manager (orch_objs st f)"
  shows "at_most_one has_role_manager
           (orch_objs (c_state (create_orchestrator st vpc orchestrator_type ext)) f)"
  using create_orchestrator_cases [of st vpc orchestrator_type ext]
proof
  assume "c_state (create_orchestrator st vpc orchestrator_type ext) = st"
  then show ?thesis using assms by simp
next
  assume "\<exists>fabric_name fab name obj.
         map_of (st_fabric st) fabric_name = Some fab \<and> n_role obj = None
         \<and> c_state (create_orchestrator st vpc orchestrator_type ext)
             = put_fabric st fabric_name
                 (fab\<lparr>f_orchestrator := AList.update name obj (f_orchestrator fab)\<rparr>)"
  then obtain fabric_name fab name obj
    where fab: "map_of (st_fabric st) fabric_name = Some fab" and role: "n_role obj = None"
      and c: "c_state (create_orchestrator st vpc orchestrator_type ext)
                = put_fabric st fabric_name
                    (fab\<lparr>f_orchestrator := AList.update name obj (f_orchestrator fab)\<rparr>)"
    by blast
  show ?thesis
  proof (cases "f = fabric_name")
    case False
    then show ?thesis using assms c by (simp add: orch_objs_put_other)
  next
    case True
    have before: "orch_objs st f = f_orchestrator fab"
      using fab True by (simp add: orch_objs_Some)
    have "at_most_one has_role_manager (AList.update name obj (f_orchestrator fab))"
    proof (rule at_most_one_derived [of has_role_manager "f_orchestrator fab"])
      show "at_most_one has_role_manager (f_orchestrator fab)" using assms before by simp
      fix x assume "x \<in> set (AList.update name obj (f_orchestrator fab))" "has_role_manager x"
      then show "\<exists>y\<in>set (f_orchestrator fab). fst y = fst x \<and> has_role_manager y"
        using set_update_cases [of x name obj "f_orchestrator fab"] role
        by (auto simp: has_role_manager_def)
    qed
    then show ?thesis using c True by (simp add: orch_objs_put)
  qed
qed

text \<open>
  C9 (as amended). Creating an orchestrator from the command line and configuring
  orchestrators keep the invariant: when at most one orchestrator of a fabric has the role
  manager, the same holds in the state that \<open>create_orchestrator\<close> leaves, and in the state
  that \<open>orchestrator_configure\<close> leaves, in every fabric, provided that the list to
  configure names at most one controller. The role loop runs only when no role of the
  fabric contains \<open>manager\<close>, and then makes every controller of the list a manager.
\<close>

theorem one_manager_kept:
  assumes one: "at_most_one has_role_manager (orch_objs st f)"
    and run: "orchestrator_configure st fabric_name orchestrator_list orch_state answers = Inr r"
    and ctl: "at_most_one (named_controller orchestrator_list) (orch_objs st fabric_name)"
  shows "at_most_one has_role_manager
           (orch_objs (c_state (create_orchestrator st vpc orchestrator_type ext)) f)
         \<and> at_most_one has_role_manager (orch_objs (cr_state r) f)"
proof
  show "at_most_one has_role_manager
          (orch_objs (c_state (create_orchestrator st vpc orchestrator_type ext)) f)"
    using one by (rule create_orchestrator_one_manager)
  show "at_most_one has_role_manager (orch_objs (cr_state r) f)"
    using run one ctl by (rule orchestrator_configure_one_manager)
qed

theorem one_manager_kept_witness:
  "\<exists>r. orchestrator_configure state_with_c_one ''f'' [''c-one''] CONFIGURED configure_fine = Inr r
        \<and> manager_names (orch_objs (cr_state r) ''f'') = [''c-one'']
        \<and> at_most_one has_role_manager (orch_objs (cr_state r) ''f'')
        \<and> at_most_one has_role_manager
            (orch_objs (c_state (create_orchestrator state_with_c_one ''aws1-vpc-f'' ''telemetry''
                                   create_succeeds)) ''f'')"
proof -
  have "case orchestrator_configure state_with_c_one ''f'' [''c-one''] CONFIGURED configure_fine of
          Inl e \<Rightarrow> False
        | Inr r \<Rightarrow> manager_names (orch_objs (cr_state r) ''f'') = [''c-one'']"
    by code_simp
  then obtain r
    where r: "orchestrator_configure state_with_c_one ''f'' [''c-one''] CONFIGURED configure_fine = Inr r"
      and m: "manager_names (orch_objs (cr_state r) ''f'') = [''c-one'']"
    by (auto split: sum.splits)
  have one: "at_most_one has_role_manager (orch_objs state_with_c_one ''f'')"
    by code_simp
  have ctl: "at_most_one (named_controller [''c-one'']) (orch_objs state_with_c_one ''f'')"
    by code_simp
  from one_manager_kept [OF one r ctl, of "''aws1-vpc-f''" "''telemetry''" create_succeeds] r m
  show ?thesis by blast
qed

text \<open>
  The claim as stated fails for batch processing: the generation writes the role that
  each entry of the batch declares (line 312), with no look at the other orchestrators. A
  batch with a controller and a telemetry node that both declare the role manager leaves
  two managers in the fabric.
\<close>

theorem two_managers_counterexample:
  "managers_after ''f''
     (resolve_orchestrators state_f ''f'' [c_one, t_one] True (\<lambda>n. Create_ok))
     = Inr [''c-one'', ''t-one'']"
  by code_simp

end
